theory Spec2Isabelle
  imports Main
begin

section \<open>Data structures\<close>

text \<open>
  Go strings are byte sequences; they are modelled as \<open>string\<close> (a list of 8-bit
  \<open>char\<close>s).  The instruction decoded from the payload is the struct \<open>Payload\<close>,
  the settings read at startup are the struct \<open>Config\<close>, and the part of
  \<open>exec.Cmd\<close> that \<open>exec.Command(name, arg...)\<close> fills in from its arguments is
  \<open>Cmd\<close>: \<open>Name\<close> is the name it was given and \<open>Args\<close> is that name followed by the
  arguments.  The field \<open>Path\<close> of \<open>exec.Cmd\<close>, which for a name without a path
  separator is the result of a search by the operating system, is not part of the model.
\<close>

record Payload =
  Target :: string
  Url :: string
  Profile :: string
  Geometry :: string
  Title :: string
  Sub :: string

record Config =
  MpvPath :: string
  PotPath :: string
  EnableLog :: bool
  LogPath :: string

record Cmd =
  Name :: string
  Args :: "string list"

type_synonym PlayerHandler = "string \<Rightarrow> Payload \<Rightarrow> Cmd"

definition exec_Command :: "string \<Rightarrow> string list \<Rightarrow> Cmd" where
  "exec_Command name arg = \<lparr>Name = name, Args = name # arg\<rparr>"

section \<open>Player handlers\<close>

definition buildMpvCmd :: PlayerHandler where
  "buildMpvCmd binPath p =
     (let args = [Url p];
          args = (if Profile p \<noteq> [] then args @ [''--profile='' @ Profile p] else args);
          args = (if Geometry p \<noteq> [] then args @ [''--geometry='' @ Geometry p] else args);
          args = (if Title p \<noteq> [] then args @ [''--force-media-title='' @ Title p] else args);
          args = (if Sub p \<noteq> [] then args @ [''--sub-file='' @ Sub p] else args)
      in exec_Command binPath args)"

definition buildPotPlayerCmd :: PlayerHandler where
  "buildPotPlayerCmd binPath p = (let args = [Url p] in exec_Command binPath args)"

definition Handlers :: "string \<rightharpoonup> PlayerHandler" where
  "Handlers = [''mpv'' \<mapsto> buildMpvCmd, ''potplayer'' \<mapsto> buildPotPlayerCmd]"

section \<open>Cleaning the payload text\<close>

text \<open>
  The loop \<open>for _, r := range rawStr\<close> visits runes.  Every case of its switch that
  writes something matches an ASCII rune only, and a rune outside ASCII (or the
  replacement rune of an invalid byte) consists of bytes from 128 upwards and writes
  nothing, so the loop is the same function when it visits the bytes one by one.
\<close>

definition rune_in :: "char \<Rightarrow> char \<Rightarrow> char \<Rightarrow> bool" where
  "rune_in lo hi r \<longleftrightarrow> (of_char lo :: nat) \<le> of_char r \<and> (of_char r :: nat) \<le> of_char hi"

definition is_alnum :: "char \<Rightarrow> bool" where
  "is_alnum r \<longleftrightarrow>
     rune_in CHR ''A'' CHR ''Z'' r \<or> rune_in CHR ''a'' CHR ''z'' r \<or> rune_in CHR ''0'' CHR ''9'' r"

text \<open>
  One turn of the switch, cases in the order of the source: the fourth case repeats a
  test that the third has already taken.
\<close>

definition clean_rune :: "char \<Rightarrow> string" where
  "clean_rune r =
     (if is_alnum r then [r]
      else if r = CHR ''-'' \<or> r = CHR ''+'' then [CHR ''+'']
      else if r = CHR ''_'' \<or> r = CHR ''/'' then [CHR ''/'']
      else if r = CHR ''/'' then []
      else [])"

fun cleanBuilder :: "string \<Rightarrow> string" where
  "cleanBuilder [] = []"
| "cleanBuilder (r # rs) = clean_rune r @ cleanBuilder rs"

definition pad4 :: "string \<Rightarrow> string" where
  "pad4 cleanStr =
     (let m = length cleanStr mod 4
      in if m \<noteq> 0 then cleanStr @ replicate (4 - m) CHR ''='' else cleanStr)"

definition sanitizer :: "string \<Rightarrow> string" where
  "sanitizer rawStr = pad4 (cleanBuilder rawStr)"

text \<open>
  The same loop in the earlier single-instruction revision of \<open>parsePayload\<close>, where
  \<open>_\<close> alone becomes \<open>/\<close> and \<open>/\<close> is dropped.
\<close>

definition clean_rune_single :: "char \<Rightarrow> string" where
  "clean_rune_single r =
     (if is_alnum r then [r]
      else if r = CHR ''-'' \<or> r = CHR ''+'' then [CHR ''+'']
      else if r = CHR ''_'' then [CHR ''/'']
      else if r = CHR ''/'' then []
      else [])"

fun cleanBuilder_single :: "string \<Rightarrow> string" where
  "cleanBuilder_single [] = []"
| "cleanBuilder_single (r # rs) = clean_rune_single r @ cleanBuilder_single rs"

definition sanitizer_single :: "string \<Rightarrow> string" where
  "sanitizer_single rawStr = pad4 (cleanBuilder_single rawStr)"

section \<open>Library functions used by the decoder\<close>

subsection \<open>\<open>strings.HasPrefix\<close>, \<open>strings.TrimPrefix\<close>, \<open>strings.TrimSpace\<close>, \<open>strings.Trim\<close>\<close>

definition HasPrefix :: "string \<Rightarrow> string \<Rightarrow> bool" where
  "HasPrefix s pre \<longleftrightarrow> take (length pre) s = pre"

definition TrimPrefix :: "string \<Rightarrow> string \<Rightarrow> string" where
  "TrimPrefix s pre = (if HasPrefix s pre then drop (length pre) s else s)"

text \<open>
  \<open>strings.TrimSpace\<close> removes leading and trailing white space as Unicode defines it.
  On bytes these are the six ASCII characters tab, line feed, vertical tab, form feed,
  carriage return and space, and the UTF-8 encodings of U+0085, U+00A0, U+1680,
  U+2000 to U+200A, U+2028, U+2029, U+202F, U+205F and U+3000.
\<close>

definition asciiSpace :: "char \<Rightarrow> bool" where
  "asciiSpace c \<longleftrightarrow> c \<in> {CHR 0x09, CHR 0x0A, CHR 0x0B, CHR 0x0C, CHR 0x0D, CHR 0x20}"

definition space2 :: "char \<Rightarrow> char \<Rightarrow> bool" where
  "space2 a b \<longleftrightarrow> a = CHR 0xC2 \<and> (b = CHR 0x85 \<or> b = CHR 0xA0)"

definition space3 :: "char \<Rightarrow> char \<Rightarrow> char \<Rightarrow> bool" where
  "space3 a b c \<longleftrightarrow>
     (a = CHR 0xE1 \<and> b = CHR 0x9A \<and> c = CHR 0x80) \<or>
     (a = CHR 0xE2 \<and> b = CHR 0x80 \<and>
        (rune_in (CHR 0x80) (CHR 0x8A) c \<or> c = CHR 0xA8 \<or> c = CHR 0xA9 \<or> c = CHR 0xAF)) \<or>
     (a = CHR 0xE2 \<and> b = CHR 0x81 \<and> c = CHR 0x9F) \<or>
     (a = CHR 0xE3 \<and> b = CHR 0x80 \<and> c = CHR 0x80)"

text \<open>
  Trimming from the front: \<open>p1\<close>, \<open>p2\<close> and \<open>p3\<close> recognize a white-space rune of
  one, two and three bytes at the head of the text.
\<close>

fun trim_runes ::
  "(char \<Rightarrow> bool) \<Rightarrow> (char \<Rightarrow> char \<Rightarrow> bool) \<Rightarrow> (char \<Rightarrow> char \<Rightarrow> char \<Rightarrow> bool) \<Rightarrow> string \<Rightarrow> string" where
  "trim_runes p1 p2 p3 (a # b # c # s) =
     (if p1 a then trim_runes p1 p2 p3 (b # c # s)
      else if p2 a b then trim_runes p1 p2 p3 (c # s)
      else if p3 a b c then trim_runes p1 p2 p3 s
      else a # b # c # s)"
| "trim_runes p1 p2 p3 [a, b] =
     (if p1 a then trim_runes p1 p2 p3 [b] else if p2 a b then [] else [a, b])"
| "trim_runes p1 p2 p3 [a] = (if p1 a then [] else [a])"
| "trim_runes p1 p2 p3 [] = []"

definition TrimLeftSpace :: "string \<Rightarrow> string" where
  "TrimLeftSpace s = trim_runes asciiSpace space2 space3 s"

text \<open>Trimming from the end works on the reversed text, where the bytes of a rune come last byte first.\<close>

definition TrimRightSpace :: "string \<Rightarrow> string" where
  "TrimRightSpace s =
     rev (trim_runes asciiSpace (\<lambda>c b. space2 b c) (\<lambda>c b a. space3 a b c) (rev s))"

definition TrimSpace :: "string \<Rightarrow> string" where
  "TrimSpace s = TrimRightSpace (TrimLeftSpace s)"

text \<open>\<open>strings.Trim\<close> with a cutset of ASCII characters works on bytes.\<close>

definition Trim :: "string \<Rightarrow> string \<Rightarrow> string" where
  "Trim s cutset =
     dropWhile (\<lambda>c. c \<in> set cutset) (rev (dropWhile (\<lambda>c. c \<in> set cutset) (rev s)))"

subsection \<open>\<open>base64.StdEncoding.DecodeString\<close>\<close>

text \<open>
  The standard alphabet with mandatory \<open>=\<close> padding, not strict about the unused bits
  of the last group; line feeds and carriage returns are skipped.  \<open>None\<close> stands for
  \<open>CorruptInputError\<close>.
\<close>

definition decodeMap :: "char \<Rightarrow> nat option" where
  "decodeMap c =
     (if rune_in CHR ''A'' CHR ''Z'' c then Some (of_char c - 65)
      else if rune_in CHR ''a'' CHR ''z'' c then Some (of_char c - 97 + 26)
      else if rune_in CHR ''0'' CHR ''9'' c then Some (of_char c - 48 + 52)
      else if c = CHR ''+'' then Some 62
      else if c = CHR ''/'' then Some 63
      else None)"

definition is_newline :: "char \<Rightarrow> bool" where
  "is_newline c \<longleftrightarrow> c = CHR 0x0A \<or> c = CHR 0x0D"

text \<open>The bytes of one group of \<open>dlen\<close> six-bit digits: \<open>dlen - 1\<close> bytes of the 24-bit value.\<close>

definition quantum_bytes :: "nat list \<Rightarrow> string" where
  "quantum_bytes dbuf =
     (let ds = map int dbuf @ replicate (4 - length dbuf) 0;
          val = (ds ! 0) * 262144 + (ds ! 1) * 4096 + (ds ! 2) * 64 + (ds ! 3)
      in take (length dbuf - 1)
           [char_of (val div 65536), char_of (val div 256), char_of val])"

text \<open>
  \<open>decodeQuantum\<close>, repeated by \<open>Decode\<close> until the input ends; \<open>dbuf\<close> holds the
  digits of the group being read.
\<close>

fun decodeQuanta :: "nat list \<Rightarrow> string \<Rightarrow> string option" where
  "decodeQuanta dbuf [] = (if dbuf = [] then Some [] else None)"
| "decodeQuanta dbuf (c # src) =
     (case decodeMap c of
        Some out \<Rightarrow>
          (if length dbuf = 3
           then map_option (\<lambda>rest. quantum_bytes (dbuf @ [out]) @ rest) (decodeQuanta [] src)
           else decodeQuanta (dbuf @ [out]) src)
      | None \<Rightarrow>
          if is_newline c then decodeQuanta dbuf src
          else if c \<noteq> CHR ''='' then None
          else if length dbuf < 2 then None
          else if length dbuf = 2 then
            (case dropWhile is_newline src of
               [] \<Rightarrow> None
             | c2 # src2 \<Rightarrow>
                 if c2 \<noteq> CHR ''='' then None
                 else if dropWhile is_newline src2 \<noteq> [] then None
                 else Some (quantum_bytes dbuf))
          else if dropWhile is_newline src \<noteq> [] then None
          else Some (quantum_bytes dbuf))"

definition DecodeString :: "string \<Rightarrow> string option" where
  "DecodeString s = decodeQuanta [] s"

subsection \<open>\<open>json.Unmarshal\<close>: text to values\<close>

text \<open>
  The decoder first checks that the whole text is one JSON value, with the scanner of
  \<open>encoding/json\<close>: a step function over the bytes and a stack of parse states, at
  most \<open>maxNestingDepth\<close> deep.  Here each parse state also carries the values read
  so far, so that the same pass yields the value.
\<close>

datatype json =
  JNull | JBool bool | JNumber | JString string | JArray "json list" | JObject "(string \<times> json) list"

text \<open>Runes as bytes: \<open>utf8.DecodeRune\<close> accepts exactly the well-formed sequences.\<close>

definition byte_in :: "nat \<Rightarrow> nat \<Rightarrow> char \<Rightarrow> bool" where
  "byte_in lo hi b \<longleftrightarrow> lo \<le> (of_char b :: nat) \<and> (of_char b :: nat) \<le> hi"

text \<open>The length of the well-formed multi-byte sequence at the head of the text, 0 if there is none.\<close>

fun rune_len :: "string \<Rightarrow> nat" where
  "rune_len [] = 0"
| "rune_len (a # s) =
     (let x = (of_char a :: nat) in
      if 0xC2 \<le> x \<and> x \<le> 0xDF then
        (case s of b # _ \<Rightarrow> if byte_in 0x80 0xBF b then 2 else 0 | _ \<Rightarrow> 0)
      else if 0xE0 \<le> x \<and> x \<le> 0xEF then
        (case s of
           b # c # _ \<Rightarrow>
             if byte_in (if x = 0xE0 then 0xA0 else 0x80) (if x = 0xED then 0x9F else 0xBF) b
                \<and> byte_in 0x80 0xBF c
             then 3 else 0
         | _ \<Rightarrow> 0)
      else if 0xF0 \<le> x \<and> x \<le> 0xF4 then
        (case s of
           b # c # d # _ \<Rightarrow>
             if byte_in (if x = 0xF0 then 0x90 else 0x80) (if x = 0xF4 then 0x8F else 0xBF) b
                \<and> byte_in 0x80 0xBF c \<and> byte_in 0x80 0xBF d
             then 4 else 0
         | _ \<Rightarrow> 0)
      else 0)"

definition EncodeRune :: "int \<Rightarrow> string" where
  "EncodeRune r =
     (if r \<le> 0x7F then [char_of r]
      else if r \<le> 0x7FF then [char_of (0xC0 + r div 64), char_of (0x80 + r mod 64)]
      else if (0xD800 \<le> r \<and> r \<le> 0xDFFF) \<or> 0x10FFFF < r then [CHR 0xEF, CHR 0xBF, CHR 0xBD]
      else if r \<le> 0xFFFF then
        [char_of (0xE0 + r div 4096), char_of (0x80 + r div 64 mod 64), char_of (0x80 + r mod 64)]
      else
        [char_of (0xF0 + r div 262144), char_of (0x80 + r div 4096 mod 64),
         char_of (0x80 + r div 64 mod 64), char_of (0x80 + r mod 64)])"

definition hexval :: "char \<Rightarrow> int option" where
  "hexval c =
     (if rune_in CHR ''0'' CHR ''9'' c then Some (of_char c - 48)
      else if rune_in CHR ''a'' CHR ''f'' c then Some (of_char c - 97 + 10)
      else if rune_in CHR ''A'' CHR ''F'' c then Some (of_char c - 65 + 10)
      else None)"

definition backslash :: char where
  "backslash = CHR 0x5C"

definition dquote :: char where
  "dquote = CHR 0x22"

text \<open>\<open>getu4\<close>: the number written by a leading \<open>\uXXXX\<close>, if the text starts with one.\<close>

definition getu4 :: "string \<Rightarrow> int option" where
  "getu4 s =
     (case s of
        e # u # a # b # c # d # _ \<Rightarrow>
          (if e = backslash \<and> u = CHR ''u'' then
             (case (hexval a, hexval b, hexval c, hexval d) of
                (Some x3, Some x2, Some x1, Some x0) \<Rightarrow> Some (x3 * 4096 + x2 * 256 + x1 * 16 + x0)
              | _ \<Rightarrow> None)
           else None)
      | _ \<Rightarrow> None)"

definition unescape :: "char \<Rightarrow> char" where
  "unescape e =
     (if e = CHR ''b'' then CHR 0x08
      else if e = CHR ''f'' then CHR 0x0C
      else if e = CHR ''n'' then CHR 0x0A
      else if e = CHR ''r'' then CHR 0x0D
      else if e = CHR ''t'' then CHR 0x09
      else e)"

text \<open>
  \<open>unquote\<close> on the bytes between the quotes of a literal that the scanner has
  accepted: escapes are replaced, a surrogate pair written as two \<open>\u\<close> escapes is
  joined, and every byte that is not part of well-formed UTF-8 becomes U+FFFD.
\<close>

function unquote :: "string \<Rightarrow> string" where
  "unquote [] = []"
| "unquote (c # s) =
     (if c = backslash then
        (case s of
           [] \<Rightarrow> []
         | e # s1 \<Rightarrow>
             if e = CHR ''u'' then
               (case getu4 (c # s) of
                  None \<Rightarrow> []
                | Some rr \<Rightarrow>
                    if 0xD800 \<le> rr \<and> rr \<le> 0xDFFF then
                      (case getu4 (drop 4 s1) of
                         Some rr1 \<Rightarrow>
                           if rr < 0xDC00 \<and> 0xDC00 \<le> rr1 \<and> rr1 \<le> 0xDFFF
                           then EncodeRune (0x10000 + (rr - 0xD800) * 1024 + (rr1 - 0xDC00))
                                  @ unquote (drop 10 s1)
                           else EncodeRune 0xFFFD @ unquote (drop 4 s1)
                       | None \<Rightarrow> EncodeRune 0xFFFD @ unquote (drop 4 s1))
                    else EncodeRune rr @ unquote (drop 4 s1))
             else unescape e # unquote s1)
      else if (of_char c :: nat) < 0x80 then c # unquote s
      else
        (let n = rune_len (c # s)
         in if n = 0 then EncodeRune 0xFFFD @ unquote s
            else take n (c # s) @ unquote (drop (n - 1) s)))"
  by pat_completeness auto
termination
  by (relation "measure length") auto

datatype frame =
  ParseObjectKey "(string \<times> json) list" string
| ParseObjectValue "(string \<times> json) list" string
| ParseArrayValue "json list"

datatype step =
  StateBeginValueOrEmpty | StateBeginValue | StateBeginStringOrEmpty | StateBeginString
| StateEndValue | StateEndTop
| StateInString | StateInStringEsc | StateInStringEscU nat
| StateNeg | State0 | State1 | StateDot | StateDot0 | StateE | StateESign | StateE0
| StateLit string json

record scanner =
  step :: step
  parseState :: "frame list"
  lit :: string
  topValue :: "json option"

definition maxNestingDepth :: nat where
  "maxNestingDepth = 10000"

definition isSpace :: "char \<Rightarrow> bool" where
  "isSpace c \<longleftrightarrow> c = CHR 0x20 \<or> c = CHR 0x09 \<or> c = CHR 0x0D \<or> c = CHR 0x0A"

definition is_digit :: "char \<Rightarrow> bool" where
  "is_digit c \<longleftrightarrow> rune_in CHR ''0'' CHR ''9'' c"

text \<open>A finished value goes to the innermost open container, or is the result.\<close>

definition deliver :: "json \<Rightarrow> scanner \<Rightarrow> scanner" where
  "deliver v s =
     (case parseState s of
        [] \<Rightarrow> s\<lparr>topValue := Some v\<rparr>
      | ParseObjectKey ms k # st \<Rightarrow>
          s\<lparr>parseState := ParseObjectKey ms (case v of JString key \<Rightarrow> key | _ \<Rightarrow> k) # st\<rparr>
      | ParseObjectValue ms k # st \<Rightarrow> s\<lparr>parseState := ParseObjectValue (ms @ [(k, v)]) k # st\<rparr>
      | ParseArrayValue es # st \<Rightarrow> s\<lparr>parseState := ParseArrayValue (es @ [v]) # st\<rparr>)"

definition pushParseState :: "frame \<Rightarrow> step \<Rightarrow> scanner \<Rightarrow> scanner option" where
  "pushParseState newParseState successState s =
     (if length (newParseState # parseState s) \<le> maxNestingDepth
      then Some (s\<lparr>parseState := newParseState # parseState s, step := successState\<rparr>)
      else None)"

definition popParseState :: "scanner \<Rightarrow> scanner" where
  "popParseState s =
     (case parseState s of
        [] \<Rightarrow> s
      | f # st \<Rightarrow>
          (deliver (case f of ParseArrayValue es \<Rightarrow> JArray es
                            | ParseObjectValue ms _ \<Rightarrow> JObject ms
                            | ParseObjectKey ms _ \<Rightarrow> JObject ms)
                   (s\<lparr>parseState := st\<rparr>))
          \<lparr>step := (if st = [] then StateEndTop else StateEndValue)\<rparr>)"

definition stateEndTop :: "scanner \<Rightarrow> char \<Rightarrow> scanner option" where
  "stateEndTop s c = (if isSpace c then Some s else None)"

definition stateEndValue :: "scanner \<Rightarrow> char \<Rightarrow> scanner option" where
  "stateEndValue s c =
     (case parseState s of
        [] \<Rightarrow> stateEndTop (s\<lparr>step := StateEndTop\<rparr>) c
      | f # st \<Rightarrow>
          if isSpace c then Some (s\<lparr>step := StateEndValue\<rparr>)
          else
            (case f of
               ParseObjectKey ms k \<Rightarrow>
                 if c = CHR '':'' then
                   Some (s\<lparr>parseState := ParseObjectValue ms k # st, step := StateBeginValue\<rparr>)
                 else None
             | ParseObjectValue ms k \<Rightarrow>
                 if c = CHR '','' then
                   Some (s\<lparr>parseState := ParseObjectKey ms k # st, step := StateBeginString\<rparr>)
                 else if c = CHR ''}'' then Some (popParseState s)
                 else None
             | ParseArrayValue es \<Rightarrow>
                 if c = CHR '','' then Some (s\<lparr>step := StateBeginValue\<rparr>)
                 else if c = CHR '']'' then Some (popParseState s)
                 else None))"

definition stateBeginValue :: "scanner \<Rightarrow> char \<Rightarrow> scanner option" where
  "stateBeginValue s c =
     (if isSpace c then Some s
      else if c = CHR ''{'' then pushParseState (ParseObjectKey [] []) StateBeginStringOrEmpty s
      else if c = CHR ''['' then pushParseState (ParseArrayValue []) StateBeginValueOrEmpty s
      else if c = dquote then Some (s\<lparr>step := StateInString, lit := []\<rparr>)
      else if c = CHR ''-'' then Some (s\<lparr>step := StateNeg\<rparr>)
      else if c = CHR ''0'' then Some (s\<lparr>step := State0\<rparr>)
      else if c = CHR ''t'' then Some (s\<lparr>step := StateLit ''rue'' (JBool True)\<rparr>)
      else if c = CHR ''f'' then Some (s\<lparr>step := StateLit ''alse'' (JBool False)\<rparr>)
      else if c = CHR ''n'' then Some (s\<lparr>step := StateLit ''ull'' JNull\<rparr>)
      else if rune_in CHR ''1'' CHR ''9'' c then Some (s\<lparr>step := State1\<rparr>)
      else None)"

definition stateBeginValueOrEmpty :: "scanner \<Rightarrow> char \<Rightarrow> scanner option" where
  "stateBeginValueOrEmpty s c =
     (if isSpace c then Some s
      else if c = CHR '']'' then stateEndValue s c
      else stateBeginValue s c)"

definition stateBeginString :: "scanner \<Rightarrow> char \<Rightarrow> scanner option" where
  "stateBeginString s c =
     (if isSpace c then Some s
      else if c = dquote then Some (s\<lparr>step := StateInString, lit := []\<rparr>)
      else None)"

definition stateBeginStringOrEmpty :: "scanner \<Rightarrow> char \<Rightarrow> scanner option" where
  "stateBeginStringOrEmpty s c =
     (if isSpace c then Some s
      else if c = CHR ''}'' then
        (case parseState s of
           ParseObjectKey ms k # st \<Rightarrow> stateEndValue (s\<lparr>parseState := ParseObjectValue ms k # st\<rparr>) c
         | _ \<Rightarrow> None)
      else stateBeginString s c)"

definition stateInString :: "scanner \<Rightarrow> char \<Rightarrow> scanner option" where
  "stateInString s c =
     (if c = dquote then Some ((deliver (JString (unquote (lit s))) s)\<lparr>step := StateEndValue\<rparr>)
      else if c = backslash then Some (s\<lparr>step := StateInStringEsc, lit := lit s @ [c]\<rparr>)
      else if (of_char c :: nat) < 0x20 then None
      else Some (s\<lparr>lit := lit s @ [c]\<rparr>))"

definition stateInStringEsc :: "scanner \<Rightarrow> char \<Rightarrow> scanner option" where
  "stateInStringEsc s c =
     (if c \<in> {CHR ''b'', CHR ''f'', CHR ''n'', CHR ''r'', CHR ''t'', backslash, CHR ''/'', dquote}
      then Some (s\<lparr>step := StateInString, lit := lit s @ [c]\<rparr>)
      else if c = CHR ''u'' then Some (s\<lparr>step := StateInStringEscU 0, lit := lit s @ [c]\<rparr>)
      else None)"

definition stateInStringEscU :: "nat \<Rightarrow> scanner \<Rightarrow> char \<Rightarrow> scanner option" where
  "stateInStringEscU n s c =
     (if hexval c \<noteq> None
      then Some (s\<lparr>step := (if n = 3 then StateInString else StateInStringEscU (Suc n)),
                  lit := lit s @ [c]\<rparr>)
      else None)"

definition stateNeg :: "scanner \<Rightarrow> char \<Rightarrow> scanner option" where
  "stateNeg s c =
     (if c = CHR ''0'' then Some (s\<lparr>step := State0\<rparr>)
      else if rune_in CHR ''1'' CHR ''9'' c then Some (s\<lparr>step := State1\<rparr>)
      else None)"

definition state0 :: "scanner \<Rightarrow> char \<Rightarrow> scanner option" where
  "state0 s c =
     (if c = CHR ''.'' then Some (s\<lparr>step := StateDot\<rparr>)
      else if c = CHR ''e'' \<or> c = CHR ''E'' then Some (s\<lparr>step := StateE\<rparr>)
      else stateEndValue (deliver JNumber s) c)"

definition state1 :: "scanner \<Rightarrow> char \<Rightarrow> scanner option" where
  "state1 s c = (if is_digit c then Some (s\<lparr>step := State1\<rparr>) else state0 s c)"

definition stateDot :: "scanner \<Rightarrow> char \<Rightarrow> scanner option" where
  "stateDot s c = (if is_digit c then Some (s\<lparr>step := StateDot0\<rparr>) else None)"

definition stateDot0 :: "scanner \<Rightarrow> char \<Rightarrow> scanner option" where
  "stateDot0 s c =
     (if is_digit c then Some s
      else if c = CHR ''e'' \<or> c = CHR ''E'' then Some (s\<lparr>step := StateE\<rparr>)
      else stateEndValue (deliver JNumber s) c)"

definition stateESign :: "scanner \<Rightarrow> char \<Rightarrow> scanner option" where
  "stateESign s c = (if is_digit c then Some (s\<lparr>step := StateE0\<rparr>) else None)"

definition stateE :: "scanner \<Rightarrow> char \<Rightarrow> scanner option" where
  "stateE s c =
     (if c = CHR ''+'' \<or> c = CHR ''-'' then Some (s\<lparr>step := StateESign\<rparr>) else stateESign s c)"

definition stateE0 :: "scanner \<Rightarrow> char \<Rightarrow> scanner option" where
  "stateE0 s c = (if is_digit c then Some s else stateEndValue (deliver JNumber s) c)"

text \<open>The literals \<open>true\<close>, \<open>false\<close> and \<open>null\<close>, letter by letter.\<close>

definition stateLit :: "string \<Rightarrow> json \<Rightarrow> scanner \<Rightarrow> char \<Rightarrow> scanner option" where
  "stateLit rest v s c =
     (case rest of
        [] \<Rightarrow> None
      | x # xs \<Rightarrow>
          if c \<noteq> x then None
          else if xs = [] then Some ((deliver v s)\<lparr>step := StateEndValue\<rparr>)
          else Some (s\<lparr>step := StateLit xs v\<rparr>))"

definition scan_step :: "scanner \<Rightarrow> char \<Rightarrow> scanner option" where
  "scan_step s c =
     (case step s of
        StateBeginValueOrEmpty \<Rightarrow> stateBeginValueOrEmpty s c
      | StateBeginValue \<Rightarrow> stateBeginValue s c
      | StateBeginStringOrEmpty \<Rightarrow> stateBeginStringOrEmpty s c
      | StateBeginString \<Rightarrow> stateBeginString s c
      | StateEndValue \<Rightarrow> stateEndValue s c
      | StateEndTop \<Rightarrow> stateEndTop s c
      | StateInString \<Rightarrow> stateInString s c
      | StateInStringEsc \<Rightarrow> stateInStringEsc s c
      | StateInStringEscU n \<Rightarrow> stateInStringEscU n s c
      | StateNeg \<Rightarrow> stateNeg s c
      | State0 \<Rightarrow> state0 s c
      | State1 \<Rightarrow> state1 s c
      | StateDot \<Rightarrow> stateDot s c
      | StateDot0 \<Rightarrow> stateDot0 s c
      | StateE \<Rightarrow> stateE s c
      | StateESign \<Rightarrow> stateESign s c
      | StateE0 \<Rightarrow> stateE0 s c
      | StateLit rest v \<Rightarrow> stateLit rest v s c)"

fun scan_bytes :: "scanner \<Rightarrow> string \<Rightarrow> scanner option" where
  "scan_bytes s [] = Some s"
| "scan_bytes s (c # data) = (case scan_step s c of None \<Rightarrow> None | Some s' \<Rightarrow> scan_bytes s' data)"

text \<open>At the end of the text the scanner is fed one space; the text is valid if that completes the top-level value.\<close>

definition scan_eof :: "scanner \<Rightarrow> json option" where
  "scan_eof s =
     (case scan_step s (CHR 0x20) of
        None \<Rightarrow> None
      | Some s' \<Rightarrow> if step s' = StateEndTop then topValue s' else None)"

definition json_value :: "string \<Rightarrow> json option" where
  "json_value data =
     (case scan_bytes \<lparr>step = StateBeginValue, parseState = [], lit = [], topValue = None\<rparr> data of
        None \<Rightarrow> None
      | Some s \<Rightarrow> scan_eof s)"

subsection \<open>\<open>json.Unmarshal\<close>: values into \<open>Payload\<close> and \<open>[]*Payload\<close>\<close>

datatype json_error = SyntaxError | UnmarshalTypeError

definition zero_Payload :: Payload where
  "zero_Payload = \<lparr>Target = [], Url = [], Profile = [], Geometry = [], Title = [], Sub = []\<rparr>"

text \<open>The names given by the struct tags, in the order of the fields.\<close>

definition field_names :: "string list" where
  "field_names = [''mode'', ''url'', ''profile'', ''geometry'', ''title'', ''sub'']"

definition set_field :: "string \<Rightarrow> string \<Rightarrow> Payload \<Rightarrow> Payload" where
  "set_field name v p =
     (if name = ''mode'' then p\<lparr>Target := v\<rparr>
      else if name = ''url'' then p\<lparr>Url := v\<rparr>
      else if name = ''profile'' then p\<lparr>Profile := v\<rparr>
      else if name = ''geometry'' then p\<lparr>Geometry := v\<rparr>
      else if name = ''title'' then p\<lparr>Title := v\<rparr>
      else if name = ''sub'' then p\<lparr>Sub := v\<rparr>
      else p)"

text \<open>
  A key that is no field name exactly is compared again under Unicode simple case
  folding.  The field names are ASCII, so a key folds to one of them only through its
  ASCII letters, the long s (U+017F, folding with \<open>s\<close>) and the Kelvin sign (U+212A,
  folding with \<open>k\<close>); other bytes are left as they are.
\<close>

definition toUpper :: "char \<Rightarrow> char" where
  "toUpper c = (if rune_in CHR ''a'' CHR ''z'' c then char_of ((of_char c :: nat) - 32) else c)"

fun foldName :: "string \<Rightarrow> string" where
  "foldName (a # b # c # s) =
     (if a = CHR 0xC5 \<and> b = CHR 0xBF then CHR ''S'' # foldName (c # s)
      else if a = CHR 0xE2 \<and> b = CHR 0x84 \<and> c = CHR 0xAA then CHR ''K'' # foldName s
      else toUpper a # foldName (b # c # s))"
| "foldName [a, b] =
     (if a = CHR 0xC5 \<and> b = CHR 0xBF then [CHR ''S''] else toUpper a # foldName [b])"
| "foldName [a] = [toUpper a]"
| "foldName [] = []"

definition field_of_key :: "string \<Rightarrow> string option" where
  "field_of_key key =
     (if key \<in> set field_names then Some key
      else find (\<lambda>name. foldName name = foldName key) field_names)"

text \<open>
  An object into the struct, member by member: an unknown key is skipped, \<open>null\<close>
  leaves the field as it is, a string is stored, anything else is a type error, which is
  remembered while decoding goes on.  The flag says that no type error has occurred.
\<close>

fun object_members :: "(string \<times> json) list \<Rightarrow> Payload \<times> bool \<Rightarrow> Payload \<times> bool" where
  "object_members [] acc = acc"
| "object_members ((key, v) # ms) (p, ok) =
     object_members ms
       (case field_of_key key of
          None \<Rightarrow> (p, ok)
        | Some name \<Rightarrow>
            (case v of
               JString str \<Rightarrow> (set_field name str p, ok)
             | JNull \<Rightarrow> (p, ok)
             | _ \<Rightarrow> (p, False)))"

definition value_into_Payload :: "json \<Rightarrow> Payload \<Rightarrow> Payload \<times> bool" where
  "value_into_Payload v p =
     (case v of
        JObject ms \<Rightarrow> object_members ms (p, True)
      | JNull \<Rightarrow> (p, True)
      | _ \<Rightarrow> (p, False))"

text \<open>An array element of type \<open>*Payload\<close>: \<open>null\<close> is the nil pointer, written \<open>None\<close>.\<close>

definition value_into_elem :: "json \<Rightarrow> Payload option \<times> bool" where
  "value_into_elem v =
     (case v of
        JNull \<Rightarrow> (None, True)
      | _ \<Rightarrow> (case value_into_Payload v zero_Payload of (p, ok) \<Rightarrow> (Some p, ok)))"

definition value_into_slice ::
  "json \<Rightarrow> Payload option list \<Rightarrow> Payload option list \<times> bool" where
  "value_into_slice v results =
     (case v of
        JArray vs \<Rightarrow> (map (fst \<circ> value_into_elem) vs, list_all (snd \<circ> value_into_elem) vs)
      | JNull \<Rightarrow> ([], True)
      | _ \<Rightarrow> (results, False))"

text \<open>
  \<open>json.Unmarshal(data, &results)\<close> and \<open>json.Unmarshal(data, &single)\<close>: the
  variable after the call and the error, if any.  A text that is no JSON value leaves
  the variable untouched.
\<close>

definition Unmarshal_slice ::
  "string \<Rightarrow> Payload option list \<Rightarrow> Payload option list \<times> json_error option" where
  "Unmarshal_slice data results =
     (case json_value data of
        None \<Rightarrow> (results, Some SyntaxError)
      | Some v \<Rightarrow>
          (case value_into_slice v results of
             (results', ok) \<Rightarrow> (results', if ok then None else Some UnmarshalTypeError)))"

definition Unmarshal_Payload :: "string \<Rightarrow> Payload \<Rightarrow> Payload \<times> json_error option" where
  "Unmarshal_Payload data single =
     (case json_value data of
        None \<Rightarrow> (single, Some SyntaxError)
      | Some v \<Rightarrow>
          (case value_into_Payload v single of
             (single', ok) \<Rightarrow> (single', if ok then None else Some UnmarshalTypeError)))"

section \<open>Protocol parsing\<close>

text \<open>
  The three errors of \<open>parsePayload\<close>: \<open>invalid scheme\<close>; \<open>base64 error\<close>, which
  carries the cleaned text; \<open>json unmarshal error\<close>, which carries the error of the
  second attempt and the text that was parsed.
\<close>

datatype parse_error =
  SchemeMismatch
| DecodeError string
| MalformedPayload json_error string

definition prefix :: string where
  "prefix = ''jelly-player://''"

definition clean_json :: "string \<Rightarrow> string" where
  "clean_json data = (let jsonStr = TrimSpace data in Trim jsonStr [CHR 0x00, CHR 0x0F])"

definition parsePayload :: "string \<Rightarrow> parse_error + Payload option list" where
  "parsePayload rawURI =
     (if \<not> HasPrefix rawURI prefix then Inl SchemeMismatch
      else
        let rawStr = TrimPrefix rawURI prefix;
            cleanStr = sanitizer rawStr
        in case DecodeString cleanStr of
             None \<Rightarrow> Inl (DecodeError cleanStr)
           | Some data \<Rightarrow>
               let jsonStr = clean_json data
               in case Unmarshal_slice jsonStr [] of
                    (results, None) \<Rightarrow> Inr results
                  | (results, Some _) \<Rightarrow>
                      (case Unmarshal_Payload jsonStr zero_Payload of
                         (single, Some err) \<Rightarrow> Inl (MalformedPayload err jsonStr)
                       | (single, None) \<Rightarrow> Inr (results @ [Some single])))"

section \<open>Main program\<close>

text \<open>
  What the program does to the outside is kept in a record: the lines handed to the log
  file, the commands whose \<open>Start\<close> was called, the number of 50 ms pauses, whether
  the protocol was registered, and whether the run ended in a nil-pointer panic.  The
  log lines are kept by kind and arguments rather than as formatted text.
\<close>

datatype log_line =
  ProtocolError parse_error
| UnknownTarget nat string
| PathMissing nat string
| Launching nat string string
| StartError nat string

record world =
  logged :: "log_line list"
  started :: "Cmd list"
  slept :: nat
  installed :: bool
  panicked :: bool

definition world0 :: world where
  "world0 = \<lparr>logged = [], started = [], slept = 0, installed = False, panicked = False\<rparr>"

definition writeLog :: "Config \<Rightarrow> log_line \<Rightarrow> world \<Rightarrow> world" where
  "writeLog cfg msg w = (if \<not> EnableLog cfg then w else w\<lparr>logged := logged w @ [msg]\<rparr>)"

text \<open>The switch on \<open>p.Target\<close>; \<open>None\<close> is its default case.\<close>

definition binPath_for :: "Config \<Rightarrow> string \<Rightarrow> string option" where
  "binPath_for cfg target =
     (if target = ''mpv'' then Some (MpvPath cfg)
      else if target = ''potplayer'' then Some (PotPath cfg)
      else None)"

text \<open>
  One turn of the loop over the instructions, for an instruction that is not nil.  The
  registry is the first argument; \<open>os_start\<close> is the operating system's answer to
  \<open>cmd.Start()\<close>, an error text or nothing.
\<close>

definition dispatch_one ::
  "(string \<rightharpoonup> PlayerHandler) \<Rightarrow> (Cmd \<Rightarrow> string option) \<Rightarrow> Config \<Rightarrow> nat \<Rightarrow> Payload \<Rightarrow> world \<Rightarrow> world" where
  "dispatch_one registry os_start cfg i p w =
     (case binPath_for cfg (Target p) of
        None \<Rightarrow> writeLog cfg (UnknownTarget i (Target p)) w
      | Some binPath \<Rightarrow>
          if binPath = [] then writeLog cfg (PathMissing i (Target p)) w
          else
            (case registry (Target p) of
               None \<Rightarrow> w
             | Some handler \<Rightarrow>
                 let cmd = handler binPath p;
                     w1 = writeLog cfg (Launching i (Title p) (Geometry p)) w;
                     w2 = w1\<lparr>started := started w1 @ [cmd]\<rparr>;
                     w3 = (case os_start cmd of
                             Some err \<Rightarrow> writeLog cfg (StartError i err) w2
                           | None \<Rightarrow> w2)
                 in w3\<lparr>slept := slept w3 + 1\<rparr>))"

text \<open>The loop; reading \<open>p.Target\<close> through a nil pointer ends the program.\<close>

fun dispatch ::
  "(string \<rightharpoonup> PlayerHandler) \<Rightarrow> (Cmd \<Rightarrow> string option) \<Rightarrow> Config \<Rightarrow> nat \<Rightarrow> Payload option list \<Rightarrow> world \<Rightarrow> world" where
  "dispatch registry os_start cfg i [] w = w"
| "dispatch registry os_start cfg i (None # payloads) w = w\<lparr>panicked := True\<rparr>"
| "dispatch registry os_start cfg i (Some p # payloads) w =
     dispatch registry os_start cfg (Suc i) payloads (dispatch_one registry os_start cfg i p w)"

definition main :: "(Cmd \<Rightarrow> string option) \<Rightarrow> Config \<Rightarrow> string list \<Rightarrow> world" where
  "main os_start cfg args =
     (if length args < 2 then world0
      else
        let arg = args ! 1
        in if arg = ''--install'' then world0\<lparr>installed := True\<rparr>
           else
             (case parsePayload arg of
                Inl err \<Rightarrow> writeLog cfg (ProtocolError err) world0
              | Inr payloads \<Rightarrow> dispatch Handlers os_start cfg 0 payloads world0))"

section \<open>Notions used to state the properties\<close>

text \<open>
  The classification of one character as the specification words it: alphanumeric kept,
  \<open>-\<close> and \<open>+\<close> to \<open>+\<close>, \<open>_\<close> to \<open>/\<close>, a bare \<open>/\<close> discarded, anything else
  discarded.
\<close>

definition classify_spec :: "char \<Rightarrow> string" where
  "classify_spec r =
     (if is_alnum r then [r]
      else if r = CHR ''-'' \<or> r = CHR ''+'' then [CHR ''+'']
      else if r = CHR ''_'' then [CHR ''/'']
      else [])"

definition sanitizer_spec :: "string \<Rightarrow> string" where
  "sanitizer_spec rawStr =
     (let cleaned = concat (map classify_spec rawStr)
      in cleaned @ replicate ((4 - length cleaned mod 4) mod 4) CHR ''='')"

text \<open>The optional flags of the mpv builder, and the argument order as the specification words it.\<close>

definition mpv_flags :: "Payload \<Rightarrow> string list" where
  "mpv_flags p =
     (if Profile p = [] then [] else [''--profile='' @ Profile p]) @
     (if Geometry p = [] then [] else [''--geometry='' @ Geometry p]) @
     (if Title p = [] then [] else [''--force-media-title='' @ Title p]) @
     (if Sub p = [] then [] else [''--sub-file='' @ Sub p])"

definition mpv_args_spec :: "Payload \<Rightarrow> string list" where
  "mpv_args_spec p = mpv_flags p @ [Url p]"

text \<open>An instruction with a recognized target whose executable path is configured, and its command.\<close>

definition launchable :: "Config \<Rightarrow> Payload \<Rightarrow> bool" where
  "launchable cfg p \<longleftrightarrow>
     (Target p = ''mpv'' \<and> MpvPath cfg \<noteq> []) \<or> (Target p = ''potplayer'' \<and> PotPath cfg \<noteq> [])"

definition command_for :: "Config \<Rightarrow> Payload \<Rightarrow> Cmd" where
  "command_for cfg p =
     (if Target p = ''mpv'' then buildMpvCmd (MpvPath cfg) p else buildPotPlayerCmd (PotPath cfg) p)"

text \<open>The log lines that the instruction at index \<open>i\<close> gives rise to when logging is on.\<close>

definition lines_for :: "(Cmd \<Rightarrow> string option) \<Rightarrow> Config \<Rightarrow> nat \<times> Payload \<Rightarrow> log_line list" where
  "lines_for os_start cfg ip =
     (case ip of (i, p) \<Rightarrow>
        if Target p \<noteq> ''mpv'' \<and> Target p \<noteq> ''potplayer'' then [UnknownTarget i (Target p)]
        else if \<not> launchable cfg p then [PathMissing i (Target p)]
        else Launching i (Title p) (Geometry p) #
             (case os_start (command_for cfg p) of Some err \<Rightarrow> [StartError i err] | None \<Rightarrow> []))"

text \<open>The characters of the standard Base64 alphabet other than \<open>/\<close>.\<close>

definition std_no_slash :: "char \<Rightarrow> bool" where
  "std_no_slash c \<longleftrightarrow> is_alnum c \<or> c = CHR ''+''"

text \<open>The characters of a padded standard Base64 text without \<open>/\<close>.\<close>

definition std_or_pad :: "char \<Rightarrow> bool" where
  "std_or_pad c \<longleftrightarrow> std_no_slash c \<or> c = CHR ''=''"

text \<open>A text whose only \<open>=\<close> are at most two at its end.\<close>

definition pad_shape :: "string \<Rightarrow> bool" where
  "pad_shape s \<longleftrightarrow> (\<exists>body k. k \<le> 2 \<and> s = body @ replicate k CHR ''='' \<and> CHR ''='' \<notin> set body)"

text \<open>
  White-space runes as byte sequences: \<open>rune_of p1 p2 p3 r\<close> says that \<open>r\<close> is one rune
  recognized by the tests for one, two and three bytes, and \<open>head_rune p1 p2 p3 s\<close> that
  the text \<open>s\<close> begins with such a rune.
\<close>

definition rune_of ::
  "(char \<Rightarrow> bool) \<Rightarrow> (char \<Rightarrow> char \<Rightarrow> bool) \<Rightarrow> (char \<Rightarrow> char \<Rightarrow> char \<Rightarrow> bool) \<Rightarrow> string \<Rightarrow> bool" where
  "rune_of p1 p2 p3 r =
     (case r of
        [a] \<Rightarrow> p1 a
      | [a, b] \<Rightarrow> p2 a b
      | [a, b, c] \<Rightarrow> p3 a b c
      | _ \<Rightarrow> False)"

fun head_rune ::
  "(char \<Rightarrow> bool) \<Rightarrow> (char \<Rightarrow> char \<Rightarrow> bool) \<Rightarrow> (char \<Rightarrow> char \<Rightarrow> char \<Rightarrow> bool) \<Rightarrow> string \<Rightarrow> bool" where
  "head_rune p1 p2 p3 (a # b # c # s) = (p1 a \<or> p2 a b \<or> p3 a b c)"
| "head_rune p1 p2 p3 [a, b] = (p1 a \<or> p2 a b)"
| "head_rune p1 p2 p3 [a] = p1 a"
| "head_rune p1 p2 p3 [] = False"

definition is_space_rune :: "string \<Rightarrow> bool" where
  "is_space_rune r = rune_of asciiSpace space2 space3 r"

definition starts_with_space :: "string \<Rightarrow> bool" where
  "starts_with_space s = head_rune asciiSpace space2 space3 s"

definition ends_with_space :: "string \<Rightarrow> bool" where
  "ends_with_space s =
     head_rune asciiSpace (\<lambda>c b. space2 b c) (\<lambda>c b a. space3 a b c) (rev s)"

text \<open>A decoded text for illustration: space, form feed, NUL, \<open>[]\<close>, SI, line feed.\<close>

definition sample_decoded :: string where
  "sample_decoded = [CHR 0x20, CHR 0x0C, CHR 0x00, CHR ''['', CHR '']'', CHR 0x0F, CHR 0x0A]"

section \<open>The sanitizer\<close>

lemma pad4_eq: "pad4 s = s @ replicate ((4 - length s mod 4) mod 4) CHR ''=''"
  by (simp add: pad4_def Let_def)

lemma pad4_length: "length (pad4 s) mod 4 = 0"
  unfolding pad4_def Let_def by (simp; presburger)

lemma pad4_shape: "pad4 s = s @ replicate (length (pad4 s) - length s) CHR ''=''"
  by (simp add: pad4_def Let_def)

lemma pad4_less: "length (pad4 s) - length s < 4"
  by (simp add: pad4_def Let_def)

lemma pad4_id: "length s mod 4 = 0 \<Longrightarrow> pad4 s = s"
  by (simp add: pad4_def)

text \<open>
  The single-instruction revision of the loop classifies every character as the
  specification says, and so does its sanitizer as a whole.
\<close>

lemma clean_rune_single_spec: "clean_rune_single r = classify_spec r"
  by (simp add: clean_rune_single_def classify_spec_def)

lemma cleanBuilder_single_concat: "cleanBuilder_single s = concat (map classify_spec s)"
  by (induction s) (simp_all add: clean_rune_single_spec)

lemma sanitizer_single_follows_spec: "sanitizer_single rawStr = sanitizer_spec rawStr"
  by (simp add: sanitizer_single_def sanitizer_spec_def pad4_eq cleanBuilder_single_concat Let_def)

text \<open>
  C2.  The sanitizer keeps alphanumerics, turns \<open>-\<close> and \<open>+\<close> into \<open>+\<close> and \<open>_\<close> into
  \<open>/\<close>, discards a bare \<open>/\<close> and every other character, and pads with \<open>=\<close>.  The
  batch revision of the loop does not discard the bare \<open>/\<close>: on \<open>W10/\<close>, a payload
  followed by a trailing slash, it answers \<open>W10/\<close> where the classification of the
  specification gives \<open>W10=\<close>.
\<close>

theorem sanitizer_keeps_slash:
  "sanitizer ''W10/'' = ''W10/'' \<and> sanitizer_spec ''W10/'' = ''W10=''"
  by code_simp

text \<open>With the kept slash the payload no longer decodes to the empty array.\<close>

lemma trailing_slash_spoils_payload:
  "parsePayload ''jelly-player://W10/'' = Inl (MalformedPayload SyntaxError ''[]?'')"
  by code_simp

lemma is_alnum_not_pad: "is_alnum c \<Longrightarrow> c \<noteq> CHR ''=''"
  by (auto simp: is_alnum_def rune_in_def)

lemma clean_rune_set: "set (clean_rune r) \<subseteq> {c. is_alnum c} \<union> {CHR ''+'', CHR ''/''}"
  by (simp add: clean_rune_def)

lemma cleanBuilder_set: "set (cleanBuilder s) \<subseteq> {c. is_alnum c} \<union> {CHR ''+'', CHR ''/''}"
proof (induction s)
  case Nil
  show ?case by simp
next
  case (Cons r rs)
  show ?case using clean_rune_set[of r] Cons.IH by auto
qed

lemma cleanBuilder_no_pad: "CHR ''='' \<notin> set (cleanBuilder s)"
  using cleanBuilder_set[of s] is_alnum_not_pad by auto

text \<open>
  C9.  The output of the sanitizer consists of letters, digits, \<open>+\<close>, \<open>/\<close> and \<open>=\<close>
  only; it is the cleaned text, which holds no \<open>=\<close>, followed by fewer than four \<open>=\<close>;
  and its length is a multiple of 4.
\<close>

theorem sanitizer_output_shape:
  "set (sanitizer rawStr) \<subseteq> {c. is_alnum c} \<union> {CHR ''+'', CHR ''/'', CHR ''=''}
   \<and> sanitizer rawStr =
       cleanBuilder rawStr @ replicate (length (sanitizer rawStr) - length (cleanBuilder rawStr)) CHR ''=''
   \<and> CHR ''='' \<notin> set (cleanBuilder rawStr)
   \<and> length (sanitizer rawStr) - length (cleanBuilder rawStr) < 4
   \<and> length (sanitizer rawStr) mod 4 = 0"
proof -
  have a: "set (sanitizer rawStr) \<subseteq> {c. is_alnum c} \<union> {CHR ''+'', CHR ''/'', CHR ''=''}"
    using cleanBuilder_set[of rawStr] by (auto simp: sanitizer_def pad4_def Let_def)
  show ?thesis
    using a pad4_shape[of "cleanBuilder rawStr"] pad4_less[of "cleanBuilder rawStr"]
      pad4_length[of "cleanBuilder rawStr"] cleanBuilder_no_pad[of rawStr]
    by (simp add: sanitizer_def)
qed

section \<open>The builders and the registry\<close>

text \<open>
  C5, as the code has it.  The argument vector of the mpv builder is the bare URL
  followed by the optional flags, in the order profile, geometry, title, subtitle, each
  present exactly when its field is not empty; the argument vector of the potplayer
  builder is the bare URL alone.  (\<open>Args\<close> starts with the program name.)
\<close>

theorem mpv_flags_follow_url:
  "Args (buildMpvCmd binPath p) =
     [binPath, Url p]
     @ (if Profile p = [] then [] else [''--profile='' @ Profile p])
     @ (if Geometry p = [] then [] else [''--geometry='' @ Geometry p])
     @ (if Title p = [] then [] else [''--force-media-title='' @ Title p])
     @ (if Sub p = [] then [] else [''--sub-file='' @ Sub p])
   \<and> Name (buildMpvCmd binPath p) = binPath
   \<and> Args (buildPotPlayerCmd binPath p) = [binPath, Url p]
   \<and> Name (buildPotPlayerCmd binPath p) = binPath"
  by (simp add: buildMpvCmd_def buildPotPlayerCmd_def exec_Command_def Let_def)

text \<open>
  C5, as stated, fails: with a profile set, the URL is the first argument and the flag
  comes after it, so the arguments are not the flags followed by the URL.
\<close>

theorem mpv_flags_not_ahead:
  "Args (buildMpvCmd ''mpv.exe''
      \<lparr>Target = ''mpv'', Url = ''http://x/a.mkv'', Profile = ''multi'', Geometry = [], Title = [], Sub = []\<rparr>)
     = [''mpv.exe'', ''http://x/a.mkv'', ''--profile=multi'']
   \<and> tl (Args (buildMpvCmd ''mpv.exe''
      \<lparr>Target = ''mpv'', Url = ''http://x/a.mkv'', Profile = ''multi'', Geometry = [], Title = [], Sub = []\<rparr>))
     \<noteq> mpv_args_spec
      \<lparr>Target = ''mpv'', Url = ''http://x/a.mkv'', Profile = ''multi'', Geometry = [], Title = [], Sub = []\<rparr>"
  by (simp add: buildMpvCmd_def exec_Command_def mpv_args_spec_def mpv_flags_def Let_def)

text \<open>
  C10.  An instruction whose target passes the switch on \<open>p.Target\<close> has the target
  \<open>mpv\<close> or \<open>potplayer\<close>, and the registry has a builder for it: the lookup in
  \<open>Handlers\<close> cannot fail.
\<close>

theorem registry_lookup_succeeds:
  "binPath_for cfg (Target p) = Some binPath \<Longrightarrow>
     (Target p = ''mpv'' \<or> Target p = ''potplayer'') \<and> (\<exists>handler. Handlers (Target p) = Some handler)"
  by (auto simp: binPath_for_def Handlers_def split: if_splits)

theorem registry_lookup_succeeds_witness:
  "binPath_for \<lparr>MpvPath = ''C:/mpv/mpv.exe'', PotPath = [], EnableLog = True, LogPath = ''mpv-handler.log''\<rparr>
      (Target \<lparr>Target = ''potplayer'', Url = ''http://x/a.mkv'', Profile = [], Geometry = [], Title = [], Sub = []\<rparr>) = Some []
   \<and> (\<exists>handler. Handlers ''potplayer'' = Some handler)"
  using registry_lookup_succeeds[of
      "\<lparr>MpvPath = ''C:/mpv/mpv.exe'', PotPath = [], EnableLog = True, LogPath = ''mpv-handler.log''\<rparr>"
      "\<lparr>Target = ''potplayer'', Url = ''http://x/a.mkv'', Profile = [], Geometry = [], Title = [], Sub = []\<rparr>" "[]"]
  by (simp add: binPath_for_def)

section \<open>The dispatcher\<close>

text \<open>
  The branch \<open>if !ok { continue }\<close> of the loop: were the registry to lack the
  builder of a target with a configured path, the turn of the loop would change nothing,
  the log included.  With \<open>Handlers\<close> the branch is never taken, as shown above.
\<close>

lemma absent_builder_branch:
  "binPath_for cfg (Target p) = Some binPath \<Longrightarrow> binPath \<noteq> [] \<Longrightarrow> registry (Target p) = None \<Longrightarrow>
     dispatch_one registry os_start cfg i p w = w"
  by (simp add: dispatch_one_def)

lemma absent_builder_unreachable:
  "binPath_for cfg (Target p) = Some binPath \<Longrightarrow> Handlers (Target p) \<noteq> None"
  by (auto simp: binPath_for_def Handlers_def split: if_splits)

lemma dispatch_one_started:
  "started (dispatch_one Handlers os_start cfg i p w) =
     started w @ (if launchable cfg p then [command_for cfg p] else [])"
  by (auto simp: dispatch_one_def binPath_for_def Handlers_def launchable_def command_for_def
      writeLog_def Let_def split: option.splits)

lemma dispatch_one_logged:
  "logged (dispatch_one Handlers os_start cfg i p w) =
     logged w @ (if EnableLog cfg then lines_for os_start cfg (i, p) else [])"
  by (auto simp: dispatch_one_def binPath_for_def Handlers_def launchable_def command_for_def
      lines_for_def writeLog_def Let_def split: option.splits)

lemma dispatch_one_slept:
  "slept (dispatch_one Handlers os_start cfg i p w) = slept w + (if launchable cfg p then 1 else 0)"
  by (auto simp: dispatch_one_def binPath_for_def Handlers_def launchable_def
      writeLog_def Let_def split: option.splits)

lemma dispatch_one_flags:
  "panicked (dispatch_one Handlers os_start cfg i p w) = panicked w
   \<and> installed (dispatch_one Handlers os_start cfg i p w) = installed w"
  by (auto simp: dispatch_one_def binPath_for_def Handlers_def
      writeLog_def Let_def split: option.splits)

lemma zip_upt_Cons: "zip [i..<i + Suc n] (p # ps) = (i, p) # zip [Suc i..<Suc i + n] ps"
  by (simp add: upt_conv_Cons)

text \<open>The one thing that ends the loop early is a nil entry, which an array element \<open>null\<close> decodes to.\<close>

lemma dispatch_nil_panics:
  "dispatch registry os_start cfg i (None # payloads) w = w\<lparr>panicked := True\<rparr>"
  by simp

lemma null_element_panics:
  "parsePayload ''jelly-player://W251bGxd'' = Inr [None]
   \<and> panicked (main (\<lambda>cmd. None)
        \<lparr>MpvPath = ''C:/mpv/mpv.exe'', PotPath = [], EnableLog = True, LogPath = ''mpv-handler.log''\<rparr>
        [''mpv-handler.exe'', ''jelly-player://W251bGxd''])"
  by code_simp

text \<open>
  On a list without nil entries the loop calls \<open>Start\<close> for exactly the instructions
  with a recognized target and a configured path, in list order, whatever the other
  instructions are; an instruction with an unrecognized target or an empty path
  contributes its log line (when logging is on) and nothing else.
\<close>

lemma per_instruction_isolation:
  "started (dispatch Handlers os_start cfg i (map Some ps) w)
     = started w @ map (command_for cfg) (filter (launchable cfg) ps)
   \<and> logged (dispatch Handlers os_start cfg i (map Some ps) w)
     = logged w @ (if EnableLog cfg
                   then concat (map (lines_for os_start cfg) (zip [i..<i + length ps] ps)) else [])
   \<and> slept (dispatch Handlers os_start cfg i (map Some ps) w)
     = slept w + length (filter (launchable cfg) ps)
   \<and> panicked (dispatch Handlers os_start cfg i (map Some ps) w) = panicked w"
proof (induction ps arbitrary: i w)
  case Nil
  show ?case by simp
next
  case (Cons p ps)
  let ?w = "dispatch_one Handlers os_start cfg i p w"
  have step: "dispatch Handlers os_start cfg i (map Some (p # ps)) w
      = dispatch Handlers os_start cfg (Suc i) (map Some ps) ?w"
    by simp
  have z: "zip [i..<i + length (p # ps)] (p # ps) = (i, p) # zip [Suc i..<Suc i + length ps] ps"
    using zip_upt_Cons[of i "length ps" p ps] by simp
  show ?case
    unfolding step z
    using Cons.IH[of "Suc i" ?w]
    by (simp add: dispatch_one_started dispatch_one_logged dispatch_one_slept dispatch_one_flags)
qed

lemma mixed_batch_example:
  "started (dispatch Handlers (\<lambda>cmd. None)
      \<lparr>MpvPath = ''C:/mpv/mpv.exe'', PotPath = [], EnableLog = True, LogPath = ''mpv-handler.log''\<rparr> 0
      (map Some
        [\<lparr>Target = ''vlc'', Url = ''http://x/a.mkv'', Profile = [], Geometry = [], Title = [], Sub = []\<rparr>,
         \<lparr>Target = ''mpv'', Url = ''http://x/b.mkv'', Profile = [], Geometry = [], Title = [], Sub = []\<rparr>,
         \<lparr>Target = ''potplayer'', Url = ''http://x/c.mkv'', Profile = [], Geometry = [], Title = [], Sub = []\<rparr>,
         \<lparr>Target = ''mpv'', Url = ''http://x/d.mkv'', Profile = [], Geometry = [], Title = ''D'', Sub = []\<rparr>])
      world0)
    = [\<lparr>Name = ''C:/mpv/mpv.exe'', Args = [''C:/mpv/mpv.exe'', ''http://x/b.mkv'']\<rparr>,
       \<lparr>Name = ''C:/mpv/mpv.exe'', Args = [''C:/mpv/mpv.exe'', ''http://x/d.mkv'', ''--force-media-title=D'']\<rparr>]
   \<and> logged (dispatch Handlers (\<lambda>cmd. None)
      \<lparr>MpvPath = ''C:/mpv/mpv.exe'', PotPath = [], EnableLog = True, LogPath = ''mpv-handler.log''\<rparr> 0
      (map Some
        [\<lparr>Target = ''vlc'', Url = ''http://x/a.mkv'', Profile = [], Geometry = [], Title = [], Sub = []\<rparr>,
         \<lparr>Target = ''mpv'', Url = ''http://x/b.mkv'', Profile = [], Geometry = [], Title = [], Sub = []\<rparr>,
         \<lparr>Target = ''potplayer'', Url = ''http://x/c.mkv'', Profile = [], Geometry = [], Title = [], Sub = []\<rparr>,
         \<lparr>Target = ''mpv'', Url = ''http://x/d.mkv'', Profile = [], Geometry = [], Title = ''D'', Sub = []\<rparr>])
      world0)
    = [UnknownTarget 0 ''vlc'', Launching 1 [] [], PathMissing 2 ''potplayer'', Launching 3 ''D'' []]"
  using per_instruction_isolation[of "\<lambda>cmd. None"
      "\<lparr>MpvPath = ''C:/mpv/mpv.exe'', PotPath = [], EnableLog = True, LogPath = ''mpv-handler.log''\<rparr>" 0
      "[\<lparr>Target = ''vlc'', Url = ''http://x/a.mkv'', Profile = [], Geometry = [], Title = [], Sub = []\<rparr>,
         \<lparr>Target = ''mpv'', Url = ''http://x/b.mkv'', Profile = [], Geometry = [], Title = [], Sub = []\<rparr>,
         \<lparr>Target = ''potplayer'', Url = ''http://x/c.mkv'', Profile = [], Geometry = [], Title = [], Sub = []\<rparr>,
         \<lparr>Target = ''mpv'', Url = ''http://x/d.mkv'', Profile = [], Geometry = [], Title = ''D'', Sub = []\<rparr>]"
      world0]
  by (simp add: launchable_def command_for_def lines_for_def world0_def buildMpvCmd_def
      exec_Command_def upt_conv_Cons)

text \<open>
  C3.  A failure of one instruction must not keep the other instructions of the batch
  from being started.  The loop does skip an instruction with an unrecognized target or
  an empty path, but it reads \<open>p.Target\<close> without a nil check: in the batch of an
  instruction for \<open>vlc\<close>, a \<open>null\<close> and an instruction for \<open>mpv\<close>, the first is
  logged and skipped, the program ends at the second, and the third, whose target is
  recognized and whose path is configured, is never started.
\<close>

theorem null_entry_aborts_batch:
  "parsePayload ''jelly-player://W3sibW9kZSI6InZsYyIsInVybCI6ImEifSxudWxsLHsibW9kZSI6Im1wdiIsInVybCI6ImIifV0''
     = Inr [Some \<lparr>Target = ''vlc'', Url = ''a'', Profile = [], Geometry = [], Title = [], Sub = []\<rparr>,
            None,
            Some \<lparr>Target = ''mpv'', Url = ''b'', Profile = [], Geometry = [], Title = [], Sub = []\<rparr>]
   \<and> launchable
        \<lparr>MpvPath = ''C:/mpv/mpv.exe'', PotPath = [], EnableLog = True, LogPath = ''mpv-handler.log''\<rparr>
        \<lparr>Target = ''mpv'', Url = ''b'', Profile = [], Geometry = [], Title = [], Sub = []\<rparr>
   \<and> main (\<lambda>cmd. None)
        \<lparr>MpvPath = ''C:/mpv/mpv.exe'', PotPath = [], EnableLog = True, LogPath = ''mpv-handler.log''\<rparr>
        [''mpv-handler.exe'', ''jelly-player://W3sibW9kZSI6InZsYyIsInVybCI6ImEifSxudWxsLHsibW9kZSI6Im1wdiIsInVybCI6ImIifV0'']
     = \<lparr>logged = [UnknownTarget 0 ''vlc''], started = [], slept = 0, installed = False,
        panicked = True\<rparr>"
  by code_simp

section \<open>Decoding\<close>

lemma decodeMap_std: "std_no_slash c \<Longrightarrow> \<exists>v. decodeMap c = Some v"
  by (auto simp: std_no_slash_def is_alnum_def decodeMap_def)

lemma decodeMap_pad: "decodeMap CHR ''='' = None"
  by (simp add: decodeMap_def rune_in_def)

lemma std_not_pad: "std_no_slash c \<Longrightarrow> c \<noteq> CHR ''=''"
  by (auto simp: std_no_slash_def is_alnum_def rune_in_def)

lemma std_or_pad_not_newline: "std_or_pad c \<Longrightarrow> \<not> is_newline c"
  by (auto simp: std_or_pad_def std_no_slash_def is_alnum_def rune_in_def is_newline_def)

lemma clean_rune_std: "std_no_slash c \<Longrightarrow> clean_rune c = [c]"
  by (auto simp: std_no_slash_def clean_rune_def)

lemma clean_rune_pad: "clean_rune CHR ''='' = []"
  by (simp add: clean_rune_def is_alnum_def rune_in_def)

lemma cleanBuilder_std: "list_all std_or_pad s \<Longrightarrow> cleanBuilder s = filter (\<lambda>c. c \<noteq> CHR ''='') s"
proof (induction s)
  case Nil
  show ?case by simp
next
  case (Cons c s)
  then show ?case
    by (cases "c = CHR ''=''") (auto simp: std_or_pad_def clean_rune_std clean_rune_pad)
qed

lemma dropWhile_newline_none: "list_all std_or_pad s \<Longrightarrow> dropWhile is_newline s = s"
  by (cases s) (auto simp: std_or_pad_not_newline)

lemma pad_shape_Nil: "pad_shape []"
  unfolding pad_shape_def by (rule exI[of _ "[]"], rule exI[of _ 0]) simp

lemma pad_shape_Cons: "pad_shape s \<Longrightarrow> c \<noteq> CHR ''='' \<Longrightarrow> pad_shape (c # s)"
proof -
  assume "pad_shape s" and c: "c \<noteq> CHR ''=''"
  then obtain body k where k: "k \<le> 2" and sh: "s = body @ replicate k CHR ''=''"
    and nb: "CHR ''='' \<notin> set body"
    unfolding pad_shape_def by (elim exE conjE)
  have "k \<le> 2 \<and> c # s = (c # body) @ replicate k CHR ''='' \<and> CHR ''='' \<notin> set (c # body)"
    using k sh nb c by simp
  then show "pad_shape (c # s)"
    unfolding pad_shape_def by (intro exI)
qed

lemma pad_shape_one: "pad_shape [CHR ''='']"
  unfolding pad_shape_def by (rule exI[of _ "[]"], rule exI[of _ 1]) simp

lemma pad_shape_two: "pad_shape [CHR ''='', CHR ''='']"
  unfolding pad_shape_def by (rule exI[of _ "[]"], rule exI[of _ 2]) (simp add: numeral_2_eq_2)

lemma pad_count_1: "((n::nat) + 1) mod 4 = 0 \<Longrightarrow> (4 - n mod 4) mod 4 = 1"
  by (simp add: mod_Suc split: if_splits)

lemma pad_count_2: "((n::nat) + 2) mod 4 = 0 \<Longrightarrow> (4 - n mod 4) mod 4 = 2"
  by (simp add: mod_Suc split: if_splits)

lemma pad_count: "((n::nat) + k) mod 4 = 0 \<Longrightarrow> k \<le> 2 \<Longrightarrow> (4 - n mod 4) mod 4 = k"
proof -
  assume a: "(n + k) mod 4 = 0" and "k \<le> 2"
  then consider "k = 0" | "k = 1" | "k = 2" by linarith
  then show ?thesis using a pad_count_1[of n] pad_count_2[of n] by cases simp_all
qed

lemma pad_shape_back: "pad_shape s \<Longrightarrow> length s mod 4 = 0 \<Longrightarrow> pad4 (filter (\<lambda>c. c \<noteq> CHR ''='') s) = s"
proof -
  assume "pad_shape s" and m: "length s mod 4 = 0"
  then obtain body k where k: "k \<le> 2" and sh: "s = body @ replicate k CHR ''=''"
    and nb: "CHR ''='' \<notin> set body"
    unfolding pad_shape_def by (elim exE conjE)
  have fb: "filter (\<lambda>c. c \<noteq> CHR ''='') body = body" using nb by (induction body) auto
  have f: "filter (\<lambda>c. c \<noteq> CHR ''='') s = body" by (subst sh) (simp add: fb)
  have l: "length s = length body + k" by (subst sh) simp
  have "(4 - length body mod 4) mod 4 = k" using m k l pad_count[of "length body" k] by simp
  then have "pad4 body = body @ replicate k CHR ''=''" by (simp add: pad4_eq)
  then show ?thesis using f sh by simp
qed

lemma decodeQuanta_shape:
  "decodeQuanta dbuf s = Some bytes \<Longrightarrow> list_all std_or_pad s \<Longrightarrow> length dbuf < 4 \<Longrightarrow>
     (length dbuf + length s) mod 4 = 0 \<and> pad_shape s"
proof (induction s arbitrary: dbuf bytes)
  case Nil
  then show ?case by (simp add: pad_shape_Nil split: if_splits)
next
  case (Cons c s)
  have tl_ok: "list_all std_or_pad s" using Cons.prems(2) by simp
  show ?case
  proof (cases "decodeMap c")
    case (Some out)
    then have cne: "c \<noteq> CHR ''=''" using decodeMap_pad by auto
    show ?thesis
    proof (cases "length dbuf = 3")
      case True
      with Cons.prems(1) Some obtain rest where r: "decodeQuanta [] s = Some rest" by auto
      have "(length ([]::nat list) + length s) mod 4 = 0 \<and> pad_shape s"
        by (rule Cons.IH[OF r tl_ok]) simp
      then show ?thesis using True cne by (simp add: pad_shape_Cons)
    next
      case False
      with Cons.prems(1) Some have r: "decodeQuanta (dbuf @ [out]) s = Some bytes" by simp
      have "(length (dbuf @ [out]) + length s) mod 4 = 0 \<and> pad_shape s"
        by (rule Cons.IH[OF r tl_ok]) (use False Cons.prems(3) in simp)
      then show ?thesis using cne by (simp add: pad_shape_Cons)
    qed
  next
    case None
    have "std_or_pad c" using Cons.prems(2) by simp
    with None decodeMap_std[of c] have ceq: "c = CHR ''=''" by (auto simp: std_or_pad_def)
    have nn: "\<not> is_newline c" using \<open>std_or_pad c\<close> std_or_pad_not_newline by simp
    have dw: "dropWhile is_newline s = s" using dropWhile_newline_none[OF tl_ok] .
    have l23: "length dbuf = 2 \<or> length dbuf = 3"
      using Cons.prems(1,3) None nn ceq by (auto split: if_splits)
    then show ?thesis
    proof
      assume l2: "length dbuf = 2"
      with Cons.prems(1) None nn ceq dw obtain s2 where s: "s = CHR ''='' # s2"
        and e: "dropWhile is_newline s2 = []"
        by (auto split: list.splits if_splits)
      have "list_all std_or_pad s2" using tl_ok s by simp
      from dropWhile_newline_none[OF this] e have "s2 = []" by simp
      with s ceq l2 show ?thesis by (simp add: pad_shape_two)
    next
      assume l3: "length dbuf = 3"
      with Cons.prems(1) None nn ceq dw have "s = []" by (auto split: if_splits)
      with ceq l3 show ?thesis by (simp add: pad_shape_one)
    qed
  qed
qed

text \<open>
  With \<open>=\<close> allowed in the text: the sanitizer only renews the padding, and a text that
  decodes directly is returned unchanged.
\<close>

lemma padded_text_unchanged:
  "list_all std_or_pad s \<Longrightarrow>
     sanitizer s = pad4 (filter (\<lambda>c. c \<noteq> CHR ''='') s)
     \<and> (list_all std_no_slash s \<longrightarrow> sanitizer s = s @ replicate ((4 - length s mod 4) mod 4) CHR ''='')
     \<and> (\<forall>bytes. DecodeString s = Some bytes \<longrightarrow>
           sanitizer s = s \<and> DecodeString (sanitizer s) = Some bytes)"
proof -
  assume a: "list_all std_or_pad s"
  have 1: "sanitizer s = pad4 (filter (\<lambda>c. c \<noteq> CHR ''='') s)"
    using cleanBuilder_std[OF a] by (simp add: sanitizer_def)
  have 2: "list_all std_no_slash s \<longrightarrow> sanitizer s = s @ replicate ((4 - length s mod 4) mod 4) CHR ''=''"
  proof
    assume b: "list_all std_no_slash s"
    then have "filter (\<lambda>c. c \<noteq> CHR ''='') s = s"
      by (induction s) (auto simp: std_not_pad)
    with 1 show "sanitizer s = s @ replicate ((4 - length s mod 4) mod 4) CHR ''=''"
      by (simp add: pad4_eq)
  qed
  have 3: "\<forall>bytes. DecodeString s = Some bytes \<longrightarrow> sanitizer s = s \<and> DecodeString (sanitizer s) = Some bytes"
  proof (intro allI impI)
    fix bytes assume d: "DecodeString s = Some bytes"
    then have dq: "decodeQuanta [] s = Some bytes" by (simp add: DecodeString_def)
    have "(length ([]::nat list) + length s) mod 4 = 0 \<and> pad_shape s"
      by (rule decodeQuanta_shape[OF dq a]) simp
    then have "sanitizer s = s" using 1 pad_shape_back[of s] by simp
    with d show "sanitizer s = s \<and> DecodeString (sanitizer s) = Some bytes" by simp
  qed
  from 1 2 3 show ?thesis by (intro conjI)
qed

lemma map_option_append_comp:
  "map_option ((@) q) (map_option ((@) pre) x) = map_option ((@) (q @ pre)) x"
  by (cases x) simp_all

lemma map_option_append_Nil: "map_option ((@) []) x = x"
  by (cases x) simp_all

lemma decodeQuanta_data:
  "list_all std_no_slash s \<Longrightarrow> length dbuf < 4 \<Longrightarrow>
     \<exists>dbuf' pre. length dbuf' = (length dbuf + length s) mod 4
        \<and> (\<forall>t. decodeQuanta dbuf (s @ t) = map_option ((@) pre) (decodeQuanta dbuf' t))"
proof (induction s arbitrary: dbuf)
  case Nil
  have "length dbuf = (length dbuf + length ([]::string)) mod 4" using Nil.prems(2) by simp
  moreover have "\<forall>t. decodeQuanta dbuf ([] @ t) = map_option ((@) []) (decodeQuanta dbuf t)"
    by (simp add: map_option_append_Nil)
  ultimately show ?case by (intro exI conjI)
next
  case (Cons c s)
  have tl_ok: "list_all std_no_slash s" using Cons.prems(1) by simp
  obtain out where out: "decodeMap c = Some out" using Cons.prems(1) decodeMap_std[of c] by auto
  show ?case
  proof (cases "length dbuf = 3")
    case True
    obtain dbuf' pre where l: "length dbuf' = (length ([]::nat list) + length s) mod 4"
      and d: "\<forall>t. decodeQuanta [] (s @ t) = map_option ((@) pre) (decodeQuanta dbuf' t)"
      using Cons.IH[OF tl_ok, of "[]"] by auto
    have l': "length dbuf' = (length dbuf + length (c # s)) mod 4" using l True by simp
    have "\<forall>t. decodeQuanta dbuf ((c # s) @ t)
           = map_option ((@) (quantum_bytes (dbuf @ [out]) @ pre)) (decodeQuanta dbuf' t)"
      using out True d by (simp add: map_option_append_comp)
    with l' show ?thesis by (intro exI conjI)
  next
    case False
    have lt: "length (dbuf @ [out]) < 4" using False Cons.prems(2) by simp
    obtain dbuf' pre where l: "length dbuf' = (length (dbuf @ [out]) + length s) mod 4"
      and d: "\<forall>t. decodeQuanta (dbuf @ [out]) (s @ t) = map_option ((@) pre) (decodeQuanta dbuf' t)"
      using Cons.IH[OF tl_ok lt] by auto
    have l': "length dbuf' = (length dbuf + length (c # s)) mod 4" using l by simp
    have "\<forall>t. decodeQuanta dbuf ((c # s) @ t) = map_option ((@) pre) (decodeQuanta dbuf' t)"
      using out False d by simp
    with l' show ?thesis by (intro exI conjI)
  qed
qed

lemma pad_not_newline: "\<not> is_newline CHR ''=''"
  by (simp add: is_newline_def)

lemma decodeQuanta_tail0: "decodeQuanta dbuf [] = (if dbuf = [] then Some [] else None)"
  by simp

lemma decodeQuanta_tail1:
  "length dbuf = 3 \<Longrightarrow> decodeQuanta dbuf [CHR ''=''] = Some (quantum_bytes dbuf)"
  by (simp add: decodeMap_pad pad_not_newline)

lemma decodeQuanta_tail2:
  "length dbuf = 2 \<Longrightarrow> decodeQuanta dbuf [CHR ''='', CHR ''=''] = Some (quantum_bytes dbuf)"
  by (simp add: decodeMap_pad pad_not_newline)

lemma decodeQuanta_tail3:
  "length dbuf = 1 \<Longrightarrow> decodeQuanta dbuf [CHR ''='', CHR ''='', CHR ''=''] = None"
  by (simp add: decodeMap_pad pad_not_newline)


lemma clean_rune_data: "std_no_slash c \<Longrightarrow> clean_rune c = [c]"
  by (auto simp: std_no_slash_def clean_rune_def)

lemma cleanBuilder_data: "list_all std_no_slash s \<Longrightarrow> cleanBuilder s = s"
  by (induction s) (simp_all add: clean_rune_data)

lemma sanitizer_data:
  "list_all std_no_slash s \<Longrightarrow> sanitizer s = s @ replicate ((4 - length s mod 4) mod 4) CHR ''=''"
  by (simp add: sanitizer_def cleanBuilder_data pad4_eq)

lemma DecodeString_data:
  "list_all std_no_slash s \<Longrightarrow>
     \<exists>dbuf' pre. length dbuf' = length s mod 4
        \<and> (\<forall>t. DecodeString (s @ t) = map_option ((@) pre) (decodeQuanta dbuf' t))"
  using decodeQuanta_data[of s "[]"] by (simp add: DecodeString_def)

lemma replicate_two: "replicate 2 x = [x, x]"
  by (simp add: numeral_2_eq_2)

lemma replicate_three: "replicate 3 x = [x, x, x]"
  by (simp add: numeral_3_eq_3)

lemma data_mod0:
  assumes "list_all std_no_slash s" "length s mod 4 = 0"
  shows "sanitizer s = s \<and> (\<exists>bytes. DecodeString s = Some bytes)"
proof -
  obtain dbuf' pre where l: "length dbuf' = length s mod 4"
    and d: "\<forall>t. DecodeString (s @ t) = map_option ((@) pre) (decodeQuanta dbuf' t)"
    using DecodeString_data[OF assms(1)] by auto
  have "dbuf' = []" using l assms(2) by simp
  then have "DecodeString s = Some pre" using spec[OF d, of "[]"] by simp
  then have "\<exists>bytes. DecodeString s = Some bytes" by simp
  moreover have "sanitizer s = s" using sanitizer_data[OF assms(1)] assms(2) by simp
  ultimately show ?thesis by simp
qed

lemma data_mod1:
  assumes "list_all std_no_slash s" "length s mod 4 = 1"
  shows "DecodeString s = None \<and> DecodeString (sanitizer s) = None"
proof -
  obtain dbuf' pre where l: "length dbuf' = length s mod 4"
    and d: "\<forall>t. DecodeString (s @ t) = map_option ((@) pre) (decodeQuanta dbuf' t)"
    using DecodeString_data[OF assms(1)] by auto
  have l1: "length dbuf' = 1" using l assms(2) by simp
  then have ne: "dbuf' \<noteq> []" by auto
  have a: "DecodeString s = None" using spec[OF d, of "[]"] ne by simp
  have san: "sanitizer s = s @ [CHR ''='', CHR ''='', CHR ''='']"
    using sanitizer_data[OF assms(1)] assms(2) by (simp add: replicate_three)
  have "DecodeString (s @ [CHR ''='', CHR ''='', CHR ''='']) = None"
    using spec[OF d, of "[CHR ''='', CHR ''='', CHR ''='']"] decodeQuanta_tail3[OF l1] by simp
  with a san show ?thesis by simp
qed

lemma data_mod2:
  assumes "list_all std_no_slash s" "length s mod 4 = 2"
  shows "DecodeString s = None \<and> (\<exists>bytes. DecodeString (sanitizer s) = Some bytes)"
proof -
  obtain dbuf' pre where l: "length dbuf' = length s mod 4"
    and d: "\<forall>t. DecodeString (s @ t) = map_option ((@) pre) (decodeQuanta dbuf' t)"
    using DecodeString_data[OF assms(1)] by auto
  have l2: "length dbuf' = 2" using l assms(2) by simp
  then have ne: "dbuf' \<noteq> []" by auto
  have a: "DecodeString s = None" using spec[OF d, of "[]"] ne by simp
  have san: "sanitizer s = s @ [CHR ''='', CHR ''='']"
    using sanitizer_data[OF assms(1)] assms(2) by (simp add: replicate_two)
  have "DecodeString (s @ [CHR ''='', CHR ''='']) = Some (pre @ quantum_bytes dbuf')"
    using spec[OF d, of "[CHR ''='', CHR ''='']"] decodeQuanta_tail2[OF l2] by simp
  with a san show ?thesis by simp
qed

lemma data_mod3:
  assumes "list_all std_no_slash s" "length s mod 4 = 3"
  shows "DecodeString s = None \<and> (\<exists>bytes. DecodeString (sanitizer s) = Some bytes)"
proof -
  obtain dbuf' pre where l: "length dbuf' = length s mod 4"
    and d: "\<forall>t. DecodeString (s @ t) = map_option ((@) pre) (decodeQuanta dbuf' t)"
    using DecodeString_data[OF assms(1)] by auto
  have l3: "length dbuf' = 3" using l assms(2) by simp
  then have ne: "dbuf' \<noteq> []" by auto
  have a: "DecodeString s = None" using spec[OF d, of "[]"] ne by simp
  have san: "sanitizer s = s @ [CHR ''='']"
    using sanitizer_data[OF assms(1)] assms(2) by simp
  have "DecodeString (s @ [CHR ''='']) = Some (pre @ quantum_bytes dbuf')"
    using spec[OF d, of "[CHR ''='']"] decodeQuanta_tail1[OF l3] by simp
  with a san show ?thesis by simp
qed

text \<open>
  C6, as the code has it.  On a text over the standard Base64 alphabet without \<open>/\<close>
  (letters, digits and \<open>+\<close>) the sanitizer appends the missing \<open>=\<close> padding and
  changes nothing else.  Such a text decodes directly exactly when its length is a
  multiple of 4, and then the sanitizer returns it unchanged and decoding the sanitized
  text gives the same bytes.  The sanitized text decodes unless the length is 1 modulo 4;
  so for a length of 2 or 3 modulo 4 direct decoding fails and decoding the sanitized text
  succeeds.
\<close>

theorem standard_alphabet_roundtrip:
  assumes "list_all std_no_slash s"
  shows "sanitizer s = s @ replicate ((4 - length s mod 4) mod 4) CHR ''=''
   \<and> ((\<exists>bytes. DecodeString s = Some bytes) \<longleftrightarrow> length s mod 4 = 0)
   \<and> ((\<exists>bytes. DecodeString (sanitizer s) = Some bytes) \<longleftrightarrow> length s mod 4 \<noteq> 1)
   \<and> (length s mod 4 = 0 \<or> length s mod 4 = 1 \<longrightarrow> DecodeString (sanitizer s) = DecodeString s)
   \<and> (\<forall>bytes. DecodeString s = Some bytes \<longrightarrow>
         sanitizer s = s \<and> DecodeString (sanitizer s) = Some bytes)"
proof -
  have "length s mod 4 < 4" by simp
  then consider "length s mod 4 = 0" | "length s mod 4 = 1" | "length s mod 4 = 2" | "length s mod 4 = 3"
    by linarith
  then show ?thesis
  proof cases
    case 1
    from data_mod0[OF assms 1] show ?thesis using 1 sanitizer_data[OF assms] by auto
  next
    case 2
    from data_mod1[OF assms 2] show ?thesis using 2 sanitizer_data[OF assms] by auto
  next
    case 3
    from data_mod2[OF assms 3] show ?thesis using 3 sanitizer_data[OF assms] by auto
  next
    case 4
    from data_mod3[OF assms 4] show ?thesis using 4 sanitizer_data[OF assms] by auto
  qed
qed

theorem standard_alphabet_roundtrip_witness:
  "list_all std_no_slash ''YWJj''
   \<and> sanitizer ''YWJj'' = ''YWJj''
   \<and> DecodeString ''YWJj'' = Some ''abc''
   \<and> DecodeString (sanitizer ''YWJj'') = Some ''abc''"
proof -
  have a: "list_all std_no_slash ''YWJj''" by code_simp
  have b: "DecodeString ''YWJj'' = Some ''abc''" by code_simp
  from standard_alphabet_roundtrip[OF a] have
    "\<forall>bytes. DecodeString ''YWJj'' = Some bytes \<longrightarrow>
       sanitizer ''YWJj'' = ''YWJj'' \<and> DecodeString (sanitizer ''YWJj'') = Some bytes"
    by (elim conjE)
  then have "sanitizer ''YWJj'' = ''YWJj'' \<and> DecodeString (sanitizer ''YWJj'') = Some ''abc''"
    using b by (elim allE impE)
  then show ?thesis using a b by (intro conjI) (elim conjE, assumption)+
qed

text \<open>
  C6, as stated, fails: \<open>YQ\<close> is over the alphabet, does not decode directly because
  its padding is missing, and decodes to \<open>a\<close> once sanitized.
\<close>

theorem unpadded_text_decodes_differently:
  "list_all std_no_slash ''YQ'' \<and> DecodeString ''YQ'' = None
   \<and> DecodeString (sanitizer ''YQ'') = Some ''a''"
  by code_simp

lemma trim_runes_removed:
  "\<exists>rs. s = concat rs @ trim_runes p1 p2 p3 s \<and> list_all (rune_of p1 p2 p3) rs"
proof (induction p1 p2 p3 s rule: trim_runes.induct)
  case (1 p1 p2 p3 a b c s)
  show ?case
  proof (cases "p1 a")
    case True
    with 1(1) obtain rs where r: "b # c # s = concat rs @ trim_runes p1 p2 p3 (b # c # s)"
      and l: "list_all (rune_of p1 p2 p3) rs" by auto
    have "a # b # c # s = concat ([a] # rs) @ trim_runes p1 p2 p3 (a # b # c # s)"
      using True r by simp
    moreover have "list_all (rune_of p1 p2 p3) ([a] # rs)" using True l by (simp add: rune_of_def)
    ultimately show ?thesis by (intro exI conjI)
  next
    case na: False
    show ?thesis
    proof (cases "p2 a b")
      case True
      with 1(2) na obtain rs where r: "c # s = concat rs @ trim_runes p1 p2 p3 (c # s)"
        and l: "list_all (rune_of p1 p2 p3) rs" by auto
      have "a # b # c # s = concat ([a, b] # rs) @ trim_runes p1 p2 p3 (a # b # c # s)"
        using True na r by simp
      moreover have "list_all (rune_of p1 p2 p3) ([a, b] # rs)" using True l by (simp add: rune_of_def)
      ultimately show ?thesis by (intro exI conjI)
    next
      case n2: False
      show ?thesis
      proof (cases "p3 a b c")
        case True
        with 1(3) na n2 obtain rs where r: "s = concat rs @ trim_runes p1 p2 p3 s"
          and l: "list_all (rune_of p1 p2 p3) rs" by auto
        have "a # b # c # s = concat ([a, b, c] # rs) @ trim_runes p1 p2 p3 (a # b # c # s)"
          using True na n2 r by simp
        moreover have "list_all (rune_of p1 p2 p3) ([a, b, c] # rs)"
          using True l by (simp add: rune_of_def)
        ultimately show ?thesis by (intro exI conjI)
      next
        case False
        then have "a # b # c # s = concat [] @ trim_runes p1 p2 p3 (a # b # c # s)"
          using na n2 by simp
        moreover have "list_all (rune_of p1 p2 p3) []" by simp
        ultimately show ?thesis by (intro exI conjI)
      qed
    qed
  qed
next
  case (2 p1 p2 p3 a b)
  show ?case
  proof (cases "p1 a")
    case True
    with 2 obtain rs where r: "[b] = concat rs @ trim_runes p1 p2 p3 [b]"
      and l: "list_all (rune_of p1 p2 p3) rs" by auto
    have "[a, b] = concat ([a] # rs) @ trim_runes p1 p2 p3 [a, b]" using True r by simp
    moreover have "list_all (rune_of p1 p2 p3) ([a] # rs)" using True l by (simp add: rune_of_def)
    ultimately show ?thesis by (intro exI conjI)
  next
    case na: False
    show ?thesis
    proof (cases "p2 a b")
      case True
      have "[a, b] = concat [[a, b]] @ trim_runes p1 p2 p3 [a, b]" using True na by simp
      moreover have "list_all (rune_of p1 p2 p3) [[a, b]]" using True by (simp add: rune_of_def)
      ultimately show ?thesis by (intro exI conjI)
    next
      case False
      have "[a, b] = concat [] @ trim_runes p1 p2 p3 [a, b]" using False na by simp
      moreover have "list_all (rune_of p1 p2 p3) []" by simp
      ultimately show ?thesis by (intro exI conjI)
    qed
  qed
next
  case (3 p1 p2 p3 a)
  show ?case
  proof (cases "p1 a")
    case True
    have "[a] = concat [[a]] @ trim_runes p1 p2 p3 [a]" using True by simp
    moreover have "list_all (rune_of p1 p2 p3) [[a]]" using True by (simp add: rune_of_def)
    ultimately show ?thesis by (intro exI conjI)
  next
    case False
    have "[a] = concat [] @ trim_runes p1 p2 p3 [a]" using False by simp
    moreover have "list_all (rune_of p1 p2 p3) []" by simp
    ultimately show ?thesis by (intro exI conjI)
  qed
next
  case (4 p1 p2 p3)
  have "[] = concat [] @ trim_runes p1 p2 p3 []" by simp
  moreover have "list_all (rune_of p1 p2 p3) []" by simp
  ultimately show ?case by (intro exI conjI)
qed

lemma trim_runes_no_head: "\<not> head_rune p1 p2 p3 (trim_runes p1 p2 p3 s)"
  by (induction p1 p2 p3 s rule: trim_runes.induct) auto

lemma head_rune_append: "head_rune p1 p2 p3 r \<Longrightarrow> head_rune p1 p2 p3 (r @ x)"
  by (induction p1 p2 p3 r rule: head_rune.induct) (cases x; cases "tl x"; auto)+

lemma rune_of_rev:
  "rune_of asciiSpace (\<lambda>c b. space2 b c) (\<lambda>c b a. space3 a b c) r \<Longrightarrow> is_space_rune (rev r)"
  by (auto simp: rune_of_def is_space_rune_def split: list.splits)


lemma TrimLeftSpace_removed:
  "\<exists>rs. s = concat rs @ TrimLeftSpace s \<and> list_all is_space_rune rs"
  unfolding TrimLeftSpace_def is_space_rune_def by (rule trim_runes_removed)

lemma TrimRightSpace_removed:
  "\<exists>rs. s = TrimRightSpace s @ concat rs \<and> list_all is_space_rune rs"
proof -
  let ?q2 = "\<lambda>c b. space2 b c" and ?q3 = "\<lambda>c b a. space3 a b c"
  obtain rs where r: "rev s = concat rs @ trim_runes asciiSpace ?q2 ?q3 (rev s)"
    and l: "list_all (rune_of asciiSpace ?q2 ?q3) rs"
    using trim_runes_removed[of "rev s" asciiSpace ?q2 ?q3] by blast
  have "rev (rev s) = rev (concat rs @ trim_runes asciiSpace ?q2 ?q3 (rev s))"
    using r by (rule arg_cong)
  then have "s = TrimRightSpace s @ concat (map rev (rev rs))"
    by (simp add: TrimRightSpace_def rev_concat)
  moreover have "list_all is_space_rune (map rev (rev rs))"
    using l rune_of_rev by (induction rs) (auto simp: list_all_iff)
  ultimately show ?thesis by (intro exI conjI)
qed

lemma TrimSpace_removed:
  "\<exists>rs1 rs2. data = concat rs1 @ TrimSpace data @ concat rs2
      \<and> list_all is_space_rune rs1 \<and> list_all is_space_rune rs2"
proof -
  obtain rs1 where a: "data = concat rs1 @ TrimLeftSpace data" and l1: "list_all is_space_rune rs1"
    using TrimLeftSpace_removed by blast
  obtain rs2 where b: "TrimLeftSpace data = TrimSpace data @ concat rs2"
    and l2: "list_all is_space_rune rs2"
    using TrimRightSpace_removed[of "TrimLeftSpace data"] by (auto simp: TrimSpace_def)
  have "data = concat rs1 @ TrimSpace data @ concat rs2" by (subst a, subst b) simp
  with l1 l2 show ?thesis by (intro exI conjI)
qed

lemma TrimSpace_maximal:
  "\<not> starts_with_space (TrimSpace data) \<and> \<not> ends_with_space (TrimSpace data)"
proof -
  obtain rs2 where b: "TrimLeftSpace data = TrimSpace data @ concat rs2"
    using TrimRightSpace_removed[of "TrimLeftSpace data"] by (auto simp: TrimSpace_def)
  have "\<not> head_rune asciiSpace space2 space3 (TrimLeftSpace data)"
    unfolding TrimLeftSpace_def by (rule trim_runes_no_head)
  then have "\<not> head_rune asciiSpace space2 space3 (TrimSpace data)"
    using head_rune_append[of asciiSpace space2 space3 "TrimSpace data" "concat rs2"] b by auto
  moreover have "\<not> ends_with_space (TrimSpace data)"
    using trim_runes_no_head[of asciiSpace "\<lambda>c b. space2 b c" "\<lambda>c b a. space3 a b c"
        "rev (TrimLeftSpace data)"]
    by (simp add: ends_with_space_def TrimSpace_def TrimRightSpace_def)
  ultimately show ?thesis by (simp add: starts_with_space_def)
qed

lemma Trim_removed:
  "\<exists>pre suf. s = pre @ Trim s cutset @ suf \<and> set pre \<subseteq> set cutset \<and> set suf \<subseteq> set cutset"
proof -
  let ?P = "\<lambda>c. c \<in> set cutset"
  let ?u = "rev (dropWhile ?P (rev s))"
  have "s = rev (takeWhile ?P (rev s) @ dropWhile ?P (rev s))"
    by (simp only: takeWhile_dropWhile_id rev_rev_ident)
  then have a: "s = ?u @ rev (takeWhile ?P (rev s))" by (simp only: rev_append)
  have b: "?u = takeWhile ?P ?u @ Trim s cutset" by (simp add: Trim_def)
  have c: "s = takeWhile ?P ?u @ Trim s cutset @ rev (takeWhile ?P (rev s))"
    by (subst a, subst b) simp
  have d: "set (takeWhile ?P ?u) \<subseteq> set cutset" using set_takeWhileD by fastforce
  have e: "set (rev (takeWhile ?P (rev s))) \<subseteq> set cutset"
    using set_takeWhileD[of _ ?P "rev s"] by auto
  from c d e show ?thesis by (intro exI conjI)
qed

lemma dropWhile_nonempty: "dropWhile P u \<noteq> [] \<Longrightarrow> u \<noteq> []"
  by (cases u) auto

lemma Trim_ends:
  "Trim s cutset \<noteq> [] \<Longrightarrow> hd (Trim s cutset) \<notin> set cutset \<and> last (Trim s cutset) \<notin> set cutset"
proof -
  let ?P = "\<lambda>c. c \<in> set cutset"
  let ?u = "rev (dropWhile ?P (rev s))"
  assume ne: "Trim s cutset \<noteq> []"
  then have h: "hd (Trim s cutset) \<notin> set cutset"
    unfolding Trim_def using hd_dropWhile[of ?P ?u] by simp
  have une: "?u \<noteq> []"
    using ne unfolding Trim_def by (rule dropWhile_nonempty)
  then have "\<not> ?P (last ?u)" using hd_dropWhile[of ?P "rev s"] by (simp add: last_rev)
  moreover have "?u = takeWhile ?P ?u @ Trim s cutset" by (simp add: Trim_def)
  then have "last ?u = last (Trim s cutset)" using ne by (metis last_appendR)
  ultimately show ?thesis using h by simp
qed


lemma clean_json_is_parsed:
  "HasPrefix rawURI prefix \<Longrightarrow> DecodeString (sanitizer (TrimPrefix rawURI prefix)) = Some data \<Longrightarrow>
     (case parsePayload rawURI of
        Inr results \<Rightarrow> json_value (clean_json data) \<noteq> None
      | Inl err \<Rightarrow> \<exists>e. err = MalformedPayload e (clean_json data))"
  by (auto simp: parsePayload_def Let_def Unmarshal_slice_def Unmarshal_Payload_def
      split: option.splits prod.splits sum.splits if_splits)

text \<open>
  C7, as the code has it.  The decoded text is first trimmed of surrounding white space:
  what is removed at either end is a sequence of white-space runes, and what is left
  neither begins nor ends with one.  Then NUL (0x00) and SI (0x0F) bytes, and only those,
  are stripped from both ends, until neither end is such a byte; a form feed (0x0C) is
  never removed by this second step.  The result is the text that the JSON decoder is
  given.
\<close>

theorem clean_json_strips_nul_and_si:
  "\<exists>rs1 rs2 pre suf.
      data = concat rs1 @ TrimSpace data @ concat rs2
    \<and> list_all is_space_rune rs1 \<and> list_all is_space_rune rs2
    \<and> \<not> starts_with_space (TrimSpace data) \<and> \<not> ends_with_space (TrimSpace data)
    \<and> TrimSpace data = pre @ clean_json data @ suf
    \<and> set pre \<subseteq> {CHR 0x00, CHR 0x0F} \<and> set suf \<subseteq> {CHR 0x00, CHR 0x0F}
    \<and> CHR 0x0C \<notin> set pre \<and> CHR 0x0C \<notin> set suf
    \<and> (clean_json data \<noteq> [] \<longrightarrow>
          hd (clean_json data) \<notin> {CHR 0x00, CHR 0x0F} \<and> last (clean_json data) \<notin> {CHR 0x00, CHR 0x0F})
    \<and> (\<forall>rawURI. HasPrefix rawURI prefix
            \<and> DecodeString (sanitizer (TrimPrefix rawURI prefix)) = Some data \<longrightarrow>
          (case parsePayload rawURI of
             Inr results \<Rightarrow> json_value (clean_json data) \<noteq> None
           | Inl err \<Rightarrow> \<exists>e. err = MalformedPayload e (clean_json data)))"
proof -
  obtain rs1 rs2 where a: "data = concat rs1 @ TrimSpace data @ concat rs2"
    and l1: "list_all is_space_rune rs1" and l2: "list_all is_space_rune rs2"
    using TrimSpace_removed by blast
  have cj: "clean_json data = Trim (TrimSpace data) [CHR 0x00, CHR 0x0F]"
    by (simp add: clean_json_def Let_def)
  obtain pre suf where b: "TrimSpace data = pre @ clean_json data @ suf"
    and p: "set pre \<subseteq> set [CHR 0x00, CHR 0x0F]" and q: "set suf \<subseteq> set [CHR 0x00, CHR 0x0F]"
    using Trim_removed[of "TrimSpace data" "[CHR 0x00, CHR 0x0F]"] unfolding cj by blast
  have p': "set pre \<subseteq> {CHR 0x00, CHR 0x0F}" and q': "set suf \<subseteq> {CHR 0x00, CHR 0x0F}"
    using p q by simp_all
  have ff1: "CHR 0x0C \<notin> set pre" and ff2: "CHR 0x0C \<notin> set suf" using p' q' by auto
  have m1: "\<not> starts_with_space (TrimSpace data)" and m2: "\<not> ends_with_space (TrimSpace data)"
    using TrimSpace_maximal[of data] by simp_all
  have e: "clean_json data \<noteq> [] \<longrightarrow>
          hd (clean_json data) \<notin> {CHR 0x00, CHR 0x0F} \<and> last (clean_json data) \<notin> {CHR 0x00, CHR 0x0F}"
    using Trim_ends[of "TrimSpace data" "[CHR 0x00, CHR 0x0F]"] by (simp add: cj)
  have f: "\<forall>rawURI. HasPrefix rawURI prefix
            \<and> DecodeString (sanitizer (TrimPrefix rawURI prefix)) = Some data \<longrightarrow>
          (case parsePayload rawURI of
             Inr results \<Rightarrow> json_value (clean_json data) \<noteq> None
           | Inl err \<Rightarrow> \<exists>e. err = MalformedPayload e (clean_json data))"
    using clean_json_is_parsed by blast
  have body: "data = concat rs1 @ TrimSpace data @ concat rs2
    \<and> list_all is_space_rune rs1 \<and> list_all is_space_rune rs2
    \<and> \<not> starts_with_space (TrimSpace data) \<and> \<not> ends_with_space (TrimSpace data)
    \<and> TrimSpace data = pre @ clean_json data @ suf
    \<and> set pre \<subseteq> {CHR 0x00, CHR 0x0F} \<and> set suf \<subseteq> {CHR 0x00, CHR 0x0F}
    \<and> CHR 0x0C \<notin> set pre \<and> CHR 0x0C \<notin> set suf
    \<and> (clean_json data \<noteq> [] \<longrightarrow>
          hd (clean_json data) \<notin> {CHR 0x00, CHR 0x0F} \<and> last (clean_json data) \<notin> {CHR 0x00, CHR 0x0F})
    \<and> (\<forall>rawURI. HasPrefix rawURI prefix
            \<and> DecodeString (sanitizer (TrimPrefix rawURI prefix)) = Some data \<longrightarrow>
          (case parsePayload rawURI of
             Inr results \<Rightarrow> json_value (clean_json data) \<noteq> None
           | Inl err \<Rightarrow> \<exists>e. err = MalformedPayload e (clean_json data)))"
    by (intro conjI a l1 l2 m1 m2 b p' q' ff1 ff2 e f)
  show ?thesis
    by (rule exI[of _ rs1], rule exI[of _ rs2], rule exI[of _ pre], rule exI[of _ suf]) (rule body)
qed

theorem clean_json_strips_nul_and_si_witness:
  "TrimSpace sample_decoded = [CHR 0x00, CHR ''['', CHR '']'', CHR 0x0F]
   \<and> clean_json sample_decoded = ''[]''
   \<and> hd (clean_json sample_decoded) \<notin> {CHR 0x00, CHR 0x0F}
   \<and> last (clean_json sample_decoded) \<notin> {CHR 0x00, CHR 0x0F}
   \<and> \<not> starts_with_space (TrimSpace sample_decoded)"
proof -
  have t: "TrimSpace sample_decoded = [CHR 0x00, CHR ''['', CHR '']'', CHR 0x0F]" by code_simp
  have c: "clean_json sample_decoded = ''[]''" by code_simp
  have ne: "clean_json sample_decoded \<noteq> []" by (simp only: c) simp
  have m: "\<not> starts_with_space (TrimSpace sample_decoded)"
    using clean_json_strips_nul_and_si[of sample_decoded] by (elim exE conjE)
  have e: "clean_json sample_decoded \<noteq> [] \<longrightarrow>
          hd (clean_json sample_decoded) \<notin> {CHR 0x00, CHR 0x0F} \<and> last (clean_json sample_decoded) \<notin> {CHR 0x00, CHR 0x0F}"
    using clean_json_strips_nul_and_si[of sample_decoded] by (elim exE conjE)
  from e ne have hl: "hd (clean_json sample_decoded) \<notin> {CHR 0x00, CHR 0x0F}
      \<and> last (clean_json sample_decoded) \<notin> {CHR 0x00, CHR 0x0F}" by (rule mp)
  show ?thesis by (intro conjI t c conjunct1[OF hl] conjunct2[OF hl] m)
qed

text \<open>
  C7, as stated, fails for the form feed: in the decoded text NUL, form feed, \<open>[]\<close> the
  NUL is stripped and the form feed stays at the start of the text given to the JSON
  decoder.
\<close>

theorem form_feed_not_stripped:
  "clean_json [CHR 0x00, CHR 0x0C, CHR ''['', CHR '']''] = [CHR 0x0C, CHR ''['', CHR '']'']"
  by code_simp


lemma Unmarshal_slice_cases:
  "Unmarshal_slice js [] = (results, None) \<Longrightarrow>
     \<exists>v. json_value js = Some v
       \<and> (case v of JArray vs \<Rightarrow> results = map (fst \<circ> value_into_elem) vs
                   | JNull \<Rightarrow> results = [] | _ \<Rightarrow> False)"
  by (auto simp: Unmarshal_slice_def value_into_slice_def split: option.splits json.splits if_splits)

lemma Unmarshal_legacy_cases:
  "Unmarshal_slice js [] = (results, Some e) \<Longrightarrow> Unmarshal_Payload js zero_Payload = (single, None) \<Longrightarrow>
     \<exists>ms. json_value js = Some (JObject ms) \<and> results = []
        \<and> single = fst (object_members ms (zero_Payload, True))"
  by (auto simp: Unmarshal_slice_def value_into_slice_def Unmarshal_Payload_def value_into_Payload_def
      split: option.splits json.splits if_splits prod.splits)

text \<open>
  C1, as the code has it.  When \<open>parsePayload\<close> returns a list, the payload has decoded
  to a text that is a JSON array, \<open>null\<close> or a JSON object: for an array the list has
  one entry per element, in the order of the array (a \<open>null\<close> element gives a nil
  entry, and an empty array the empty list); for \<open>null\<close> the list is empty; for an
  object the list has exactly one entry.  Otherwise the result is an error and there is
  no list.
\<close>

theorem decoded_list_shape:
  assumes "parsePayload rawURI = Inr results"
  shows "\<exists>data v. HasPrefix rawURI prefix
       \<and> DecodeString (sanitizer (TrimPrefix rawURI prefix)) = Some data
       \<and> json_value (clean_json data) = Some v
       \<and> (case v of
             JArray vs \<Rightarrow> results = map (fst \<circ> value_into_elem) vs
           | JNull \<Rightarrow> results = []
           | JObject ms \<Rightarrow> results = [Some (fst (object_members ms (zero_Payload, True)))]
           | _ \<Rightarrow> False)"
proof -
  have pre: "HasPrefix rawURI prefix"
    using assms by (auto simp: parsePayload_def split: if_splits)
  obtain data where dec: "DecodeString (sanitizer (TrimPrefix rawURI prefix)) = Some data"
    using assms pre by (auto simp: parsePayload_def Let_def split: option.splits)
  let ?js = "clean_json data"
  obtain r e where sl: "Unmarshal_slice ?js [] = (r, e)"
    by (cases "Unmarshal_slice ?js []") auto
  show ?thesis
  proof (cases e)
    case None
    then have "results = r"
      using assms pre dec sl by (simp add: parsePayload_def Let_def)
    with Unmarshal_slice_cases[of ?js r] sl None pre dec show ?thesis
      by (auto split: json.splits)
  next
    case (Some err)
    obtain single e2 where un: "Unmarshal_Payload ?js zero_Payload = (single, e2)"
      by (cases "Unmarshal_Payload ?js zero_Payload") auto
    have e2: "e2 = None" and res: "results = r @ [Some single]"
      using assms pre dec sl Some un by (auto simp: parsePayload_def Let_def split: option.splits)
    from Unmarshal_legacy_cases[of ?js r err single] sl Some un e2
    obtain ms where "json_value ?js = Some (JObject ms)" "r = []"
        "single = fst (object_members ms (zero_Payload, True))"
      by auto
    with res pre dec show ?thesis by auto
  qed
qed

theorem decoded_list_shape_witness:
  "parsePayload ''jelly-player://W3sibW9kZSI6Im1wdiIsInVybCI6ImEifSx7Im1vZGUiOiJwb3RwbGF5ZXIiLCJ1cmwiOiJiIn1d''
     = Inr [Some \<lparr>Target = ''mpv'', Url = ''a'', Profile = [], Geometry = [], Title = [], Sub = []\<rparr>,
            Some \<lparr>Target = ''potplayer'', Url = ''b'', Profile = [], Geometry = [], Title = [], Sub = []\<rparr>]
   \<and> (\<exists>data v. DecodeString (sanitizer (TrimPrefix ''jelly-player://W3sibW9kZSI6Im1wdiIsInVybCI6ImEifSx7Im1vZGUiOiJwb3RwbGF5ZXIiLCJ1cmwiOiJiIn1d'' prefix)) = Some data
         \<and> json_value (clean_json data) = Some v
         \<and> (case v of
               JArray vs \<Rightarrow>
                 [Some \<lparr>Target = ''mpv'', Url = ''a'', Profile = [], Geometry = [], Title = [], Sub = []\<rparr>,
                  Some \<lparr>Target = ''potplayer'', Url = ''b'', Profile = [], Geometry = [], Title = [], Sub = []\<rparr>]
                 = map (fst \<circ> value_into_elem) vs
             | JNull \<Rightarrow> False
             | JObject ms \<Rightarrow> False
             | _ \<Rightarrow> False))"
proof -
  have h: "parsePayload ''jelly-player://W3sibW9kZSI6Im1wdiIsInVybCI6ImEifSx7Im1vZGUiOiJwb3RwbGF5ZXIiLCJ1cmwiOiJiIn1d''
     = Inr [Some \<lparr>Target = ''mpv'', Url = ''a'', Profile = [], Geometry = [], Title = [], Sub = []\<rparr>,
            Some \<lparr>Target = ''potplayer'', Url = ''b'', Profile = [], Geometry = [], Title = [], Sub = []\<rparr>]"
    by code_simp
  from decoded_list_shape[OF h] obtain data v where
    d: "DecodeString (sanitizer (TrimPrefix ''jelly-player://W3sibW9kZSI6Im1wdiIsInVybCI6ImEifSx7Im1vZGUiOiJwb3RwbGF5ZXIiLCJ1cmwiOiJiIn1d'' prefix)) = Some data"
    and j: "json_value (clean_json data) = Some v"
    and c: "case v of
             JArray vs \<Rightarrow>
               [Some \<lparr>Target = ''mpv'', Url = ''a'', Profile = [], Geometry = [], Title = [], Sub = []\<rparr>,
                Some \<lparr>Target = ''potplayer'', Url = ''b'', Profile = [], Geometry = [], Title = [], Sub = []\<rparr>]
               = map (fst \<circ> value_into_elem) vs
           | JNull \<Rightarrow>
               [Some \<lparr>Target = ''mpv'', Url = ''a'', Profile = [], Geometry = [], Title = [], Sub = []\<rparr>,
                Some \<lparr>Target = ''potplayer'', Url = ''b'', Profile = [], Geometry = [], Title = [], Sub = []\<rparr>]
               = []
           | JObject ms \<Rightarrow>
               [Some \<lparr>Target = ''mpv'', Url = ''a'', Profile = [], Geometry = [], Title = [], Sub = []\<rparr>,
                Some \<lparr>Target = ''potplayer'', Url = ''b'', Profile = [], Geometry = [], Title = [], Sub = []\<rparr>]
               = [Some (fst (object_members ms (zero_Payload, True)))]
           | _ \<Rightarrow> False"
    by blast
  from c have "case v of
               JArray vs \<Rightarrow>
                 [Some \<lparr>Target = ''mpv'', Url = ''a'', Profile = [], Geometry = [], Title = [], Sub = []\<rparr>,
                  Some \<lparr>Target = ''potplayer'', Url = ''b'', Profile = [], Geometry = [], Title = [], Sub = []\<rparr>]
                 = map (fst \<circ> value_into_elem) vs
             | JNull \<Rightarrow> False
             | JObject ms \<Rightarrow> False
             | _ \<Rightarrow> False"
    by (cases v) simp_all
  with h d j show ?thesis by blast
qed

text \<open>
  C1, as stated, fails: the payload \<open>W10\<close> is the Base64 text of the empty array
  \<open>[]\<close>; it is accepted, and the list returned has no element.
\<close>

theorem empty_batch_accepted: "parsePayload ''jelly-player://W10'' = Inr []"
  by code_simp

text \<open>A single object is the one entry of the list.\<close>

lemma legacy_object_one_entry:
  "parsePayload ''jelly-player://eyJtb2RlIjoibXB2IiwidXJsIjoiYSIsInRpdGxlIjoiVCJ9''
     = Inr [Some \<lparr>Target = ''mpv'', Url = ''a'', Profile = [], Geometry = [], Title = ''T'', Sub = []\<rparr>]"
  by code_simp

section \<open>Whole-payload errors\<close>

text \<open>
  C4.  When \<open>parsePayload\<close> fails on the argument (the prefix is missing, the Base64
  text does not decode, or the decoded text is neither an array nor an object of
  instructions), the run starts no process and makes no pause; all it does is hand the
  error to the log.
\<close>

theorem protocol_error_starts_nothing:
  "parsePayload arg = Inl err \<Longrightarrow>
     started (main os_start cfg (exe # arg # rest)) = []
     \<and> slept (main os_start cfg (exe # arg # rest)) = 0
     \<and> (arg \<noteq> ''--install'' \<longrightarrow>
          logged (main os_start cfg (exe # arg # rest)) = (if EnableLog cfg then [ProtocolError err] else []))"
  by (simp add: main_def Let_def writeLog_def world0_def)

theorem protocol_error_starts_nothing_witness:
  "parsePayload ''http://x/a.mkv'' = Inl SchemeMismatch
   \<and> started (main (\<lambda>cmd. None)
        \<lparr>MpvPath = ''C:/mpv/mpv.exe'', PotPath = [], EnableLog = True, LogPath = ''mpv-handler.log''\<rparr>
        [''mpv-handler.exe'', ''http://x/a.mkv'']) = []
   \<and> parsePayload ''jelly-player://A'' = Inl (DecodeError ''A==='')
   \<and> started (main (\<lambda>cmd. None)
        \<lparr>MpvPath = ''C:/mpv/mpv.exe'', PotPath = [], EnableLog = True, LogPath = ''mpv-handler.log''\<rparr>
        [''mpv-handler.exe'', ''jelly-player://A'']) = []
   \<and> parsePayload ''jelly-player://Nw'' = Inl (MalformedPayload UnmarshalTypeError ''7'')
   \<and> started (main (\<lambda>cmd. None)
        \<lparr>MpvPath = ''C:/mpv/mpv.exe'', PotPath = [], EnableLog = True, LogPath = ''mpv-handler.log''\<rparr>
        [''mpv-handler.exe'', ''jelly-player://Nw'']) = []
   \<and> logged (main (\<lambda>cmd. None)
        \<lparr>MpvPath = ''C:/mpv/mpv.exe'', PotPath = [], EnableLog = True, LogPath = ''mpv-handler.log''\<rparr>
        [''mpv-handler.exe'', ''jelly-player://Nw''])
       = [ProtocolError (MalformedPayload UnmarshalTypeError ''7'')]"
proof -
  have e1: "parsePayload ''http://x/a.mkv'' = Inl SchemeMismatch" by code_simp
  have e2: "parsePayload ''jelly-player://A'' = Inl (DecodeError ''A==='')" by code_simp
  have e3: "parsePayload ''jelly-player://Nw'' = Inl (MalformedPayload UnmarshalTypeError ''7'')"
    by code_simp
  show ?thesis
    using e1 e2 e3
      protocol_error_starts_nothing[OF e1, of "\<lambda>cmd. None"
        "\<lparr>MpvPath = ''C:/mpv/mpv.exe'', PotPath = [], EnableLog = True, LogPath = ''mpv-handler.log''\<rparr>"
        "''mpv-handler.exe''" "[]"]
      protocol_error_starts_nothing[OF e2, of "\<lambda>cmd. None"
        "\<lparr>MpvPath = ''C:/mpv/mpv.exe'', PotPath = [], EnableLog = True, LogPath = ''mpv-handler.log''\<rparr>"
        "''mpv-handler.exe''" "[]"]
      protocol_error_starts_nothing[OF e3, of "\<lambda>cmd. None"
        "\<lparr>MpvPath = ''C:/mpv/mpv.exe'', PotPath = [], EnableLog = True, LogPath = ''mpv-handler.log''\<rparr>"
        "''mpv-handler.exe''" "[]"]
    by simp
qed

section \<open>A complete run\<close>

text \<open>
  The batch of two \<open>mpv\<close> instructions with a geometry each, as a URL-safe Base64
  payload: two launches of the configured executable, in the order of the batch, each
  with its own \<open>--geometry\<close> flag, and a pause after each.
\<close>

lemma two_launches_end_to_end:
  "main (\<lambda>cmd. None)
     \<lparr>MpvPath = ''C:/mpv/mpv.exe'', PotPath = [], EnableLog = True, LogPath = ''mpv-handler.log''\<rparr>
     [''mpv-handler.exe'',
      ''jelly-player://W3sibW9kZSI6Im1wdiIsInVybCI6Imh0dHA6Ly94L2EubWt2IiwiZ2VvbWV0cnkiOiI1MCV4NTAlKzArMCJ9LHsibW9kZSI6Im1wdiIsInVybCI6Imh0dHA6Ly94L2IubWt2IiwiZ2VvbWV0cnkiOiI1MCV4NTAlKzk2MCswIn1d'']
   = \<lparr>logged = [Launching 0 [] ''50%x50%+0+0'', Launching 1 [] ''50%x50%+960+0''],
      started =
        [\<lparr>Name = ''C:/mpv/mpv.exe'', Args = [''C:/mpv/mpv.exe'', ''http://x/a.mkv'', ''--geometry=50%x50%+0+0'']\<rparr>,
         \<lparr>Name = ''C:/mpv/mpv.exe'', Args = [''C:/mpv/mpv.exe'', ''http://x/b.mkv'', ''--geometry=50%x50%+960+0'']\<rparr>],
      slept = 2, installed = False, panicked = False\<rparr>"
  by code_simp

end
